theory Spec2Isabelle
  imports
    Complex_Main
    "HOL-Library.Char_ord"
    "HOL-Library.List_Lexorder"
    "HOL-Library.Product_Lexorder"
begin

section \<open>The curtailment policy module of Switch\<close>

text \<open>
  A shallow embedding of \<^verbatim>\<open>switch_model/policies/Curtailment.py\<close>. The module has
  three entry points: \<^verbatim>\<open>define_components\<close> declares a key set, a parameter, a
  variable, an expression and two constraints on a Pyomo model; \<^verbatim>\<open>load_inputs\<close>
  reads the table of curtailment limits; \<^verbatim>\<open>post_solve\<close> turns the solved values
  into two CSV reports.

  Numbers are modelled as \<^typ>\<open>real\<close>: the rounding of Python floats and the tolerance
  of the solver are not part of the model.
\<close>

subsection \<open>Identifiers and errors\<close>

type_synonym gen = string
type_synonym timepoint = int
type_synonym period = int
type_synonym energy_source = string
type_synonym fuel = string

text \<open>
  The exceptions that can end a phase. The string names the component or the file.
  \<^item> \<open>KeyError\<close>: an indexed component is subscripted outside its index set;
  \<^item> \<open>ValueError\<close>: the framework rejects a value (set validation, parameter domain,
    a constraint rule that returns a plain Boolean);
  \<^item> \<open>IOError\<close>: an input file cannot be opened.
\<close>

datatype error = KeyError string | ValueError string | IOError string

subsection \<open>The base dispatch model\<close>

text \<open>
  The sets and parameters that the module reads but does not declare. They belong to the
  base dispatch model, so they are taken as a parameter. \<open>base_index\<close> gives the index
  sets of the two dispatch components of the base model, \<open>DispatchGen\<close> and
  \<open>DispatchUpperLimit\<close>.
\<close>

datatype component = DispatchGen | DispatchUpperLimit | Curtailment

record base_model =
  PERIODS :: "period list"
  ENERGY_SOURCES :: "energy_source list"
  GENERATION_PROJECTS :: "gen list"
  TPS_IN_PERIOD :: "period \<Rightarrow> timepoint list"
  GEN_TPS :: "(gen \<times> timepoint) list"
  gen_energy_source :: "gen \<Rightarrow> energy_source"
  tp_weight :: "timepoint \<Rightarrow> real"
  base_index :: "component \<Rightarrow> (gen \<times> timepoint) list"

subsection \<open>Expressions and constraints\<close>

text \<open>
  A rule of the module builds a symbolic expression over the indexed components; the
  solver later gives every component a number at every index.
\<close>

datatype expr =
    Const real
  | Ref component gen timepoint
  | Add expr expr
  | Mul expr expr

datatype relation = Equal expr expr | LessEq expr expr

type_synonym solution = "component \<Rightarrow> gen \<Rightarrow> timepoint \<Rightarrow> real"

fun expr_value :: "solution \<Rightarrow> expr \<Rightarrow> real" where
  "expr_value sol (Const c) = c"
| "expr_value sol (Ref c g t) = sol c g t"
| "expr_value sol (Add a b) = expr_value sol a + expr_value sol b"
| "expr_value sol (Mul a b) = expr_value sol a * expr_value sol b"

fun holds :: "solution \<Rightarrow> relation \<Rightarrow> bool" where
  "holds sol (Equal a b) = (expr_value sol a = expr_value sol b)"
| "holds sol (LessEq a b) = (expr_value sol a \<le> expr_value sol b)"

text \<open>Python's \<^verbatim>\<open>sum\<close> starts from 0 and adds the terms from left to right.\<close>

definition py_sum :: "expr list \<Rightarrow> expr" where
  "py_sum ts = foldl Add (Const 0) ts"

text \<open>
  \<^verbatim>\<open>m.C[g, t]\<close>: a component subscripted outside its index set raises \<open>KeyError\<close>.
  \<open>Curtailment\<close> is declared by this module over \<open>GEN_TPS\<close>.
\<close>

fun component_name :: "component \<Rightarrow> string" where
  "component_name DispatchGen = ''DispatchGen''"
| "component_name DispatchUpperLimit = ''DispatchUpperLimit''"
| "component_name Curtailment = ''Curtailment''"

fun index_of :: "base_model \<Rightarrow> component \<Rightarrow> (gen \<times> timepoint) list" where
  "index_of m Curtailment = GEN_TPS m"
| "index_of m c = base_index m c"

definition getitem :: "base_model \<Rightarrow> component \<Rightarrow> gen \<Rightarrow> timepoint \<Rightarrow> error + expr" where
  "getitem m c g t =
     (if (g, t) \<in> set (index_of m c) then Inr (Ref c g t)
      else Inl (KeyError (component_name c)))"

text \<open>Running a fallible function over a list stops at the first error.\<close>

fun collect :: "('a \<Rightarrow> error + 'b) \<Rightarrow> 'a list \<Rightarrow> error + 'b list" where
  "collect f [] = Inr []"
| "collect f (x # xs) =
     (case f x of
        Inl e \<Rightarrow> Inl e
      | Inr y \<Rightarrow> (case collect f xs of Inl e \<Rightarrow> Inl e | Inr ys \<Rightarrow> Inr (y # ys)))"

subsection \<open>Sets, parameters and variables of the module\<close>

type_synonym limit_key = "period \<times> energy_source"

text \<open>
  What the data portal holds for this module after loading: the members of the key set
  and the values of the parameter.
\<close>

record switch_data =
  PERIOD_Curtailment_MAX_data :: "limit_key list"
  max_curtailment_Rate_data :: "(limit_key \<times> real) list"

text \<open>
  \<^verbatim>\<open>Set(dimen=2, validate=lambda m, p, e: p in m.PERIODS and e in m.ENERGY_SOURCES)\<close>:
  every member is passed to the validation rule when it is added, and a member that
  fails it raises \<open>ValueError\<close>. A member that is already in the set is not added again.
\<close>

definition validate :: "base_model \<Rightarrow> limit_key \<Rightarrow> bool" where
  "validate m k = (case k of (p, e) \<Rightarrow> p \<in> set (PERIODS m) \<and> e \<in> set (ENERGY_SOURCES m))"

definition construct_PERIOD_Curtailment_MAX :: "base_model \<Rightarrow> limit_key list \<Rightarrow> error + limit_key list" where
  "construct_PERIOD_Curtailment_MAX m ks =
     (if list_all (validate m) ks then Inr (rev (remdups (rev ks)))
      else Inl (ValueError ''PERIOD_Curtailment_MAX''))"

text \<open>
  \<^verbatim>\<open>Param(mod.PERIOD_Curtailment_MAX, within=NonNegativeReals, default=1)\<close>: a
  parameter has an index set, the values stored for some of its indices, and a default.
  A stored value outside the index set or outside the domain is rejected when the
  parameter is built. Where the data give one index twice, the later value stays.
\<close>

record param =
  param_index :: "limit_key list"
  param_values :: "(limit_key \<times> real) list"
  param_default :: real

definition construct_max_curtailment_Rate :: "limit_key list \<Rightarrow> (limit_key \<times> real) list \<Rightarrow> error + param" where
  "construct_max_curtailment_Rate ix vs =
     (if list_all (\<lambda>(k, v). k \<in> set ix \<and> 0 \<le> v) vs
      then Inr \<lparr>param_index = ix, param_values = rev vs, param_default = 1\<rparr>
      else Inl (ValueError ''max_curtailment_Rate''))"

text \<open>
  \<^verbatim>\<open>m.max_curtailment_Rate[p, e]\<close>: outside the index set the subscript raises
  \<open>KeyError\<close>; inside it the stored value is returned, and the default where none is
  stored.
\<close>

definition param_getitem :: "param \<Rightarrow> limit_key \<Rightarrow> error + real" where
  "param_getitem P k =
     (if k \<in> set (param_index P)
      then (case map_of (param_values P) k of Some v \<Rightarrow> Inr v | None \<Rightarrow> Inr (param_default P))
      else Inl (KeyError ''max_curtailment_Rate''))"

datatype domain = Reals | NonNegativeReals

fun in_domain :: "domain \<Rightarrow> real \<Rightarrow> bool" where
  "in_domain Reals x = True"
| "in_domain NonNegativeReals x = (0 \<le> x)"

record var_decl =
  var_index :: "(gen \<times> timepoint) list"
  var_domain :: domain

subsection \<open>define_components\<close>

text \<open>
  The (project, timepoint) pairs that the two sums of a key \<open>(p, e)\<close> range over:
  \<^verbatim>\<open>for (g,t) in m.GENERATION_PROJECTS*m.TPS_IN_PERIOD[p] if m.gen_energy_source[g] == e\<close>.
\<close>

definition matching_pairs :: "base_model \<Rightarrow> period \<Rightarrow> energy_source \<Rightarrow> (gen \<times> timepoint) list" where
  "matching_pairs m p e =
     filter (\<lambda>(g, t). gen_energy_source m g = e)
       (List.product (GENERATION_PROJECTS m) (TPS_IN_PERIOD m p))"

text \<open>The term \<^verbatim>\<open>m.C[g, t] * m.tp_weight[t]\<close> of a weighted sum.\<close>

definition weighted :: "base_model \<Rightarrow> component \<Rightarrow> gen \<times> timepoint \<Rightarrow> error + expr" where
  "weighted m c gt =
     (case gt of (g, t) \<Rightarrow>
        (case getitem m c g t of
           Inl err \<Rightarrow> Inl err
         | Inr v \<Rightarrow> Inr (Mul v (Const (tp_weight m t)))))"

text \<open>The rule of the expression \<open>Curtailment_Cost[p, e]\<close>.\<close>

definition Curtailment_Cost_rule :: "base_model \<Rightarrow> limit_key \<Rightarrow> error + expr" where
  "Curtailment_Cost_rule m k =
     (case k of (p, e) \<Rightarrow>
        (case collect (\<lambda>(g, t). getitem m Curtailment g t) (matching_pairs m p e) of
           Inl err \<Rightarrow> Inl err
         | Inr ts \<Rightarrow> Inr (py_sum ts)))"

text \<open>The rule of the constraint \<open>Dispatch_Curtailment[g, t]\<close>.\<close>

definition Dispatch_Curtailment_rule :: "base_model \<Rightarrow> gen \<times> timepoint \<Rightarrow> error + relation" where
  "Dispatch_Curtailment_rule m gt =
     (case gt of (g, t) \<Rightarrow>
        (case getitem m DispatchGen g t of
           Inl err \<Rightarrow> Inl err
         | Inr d \<Rightarrow>
        (case getitem m Curtailment g t of
           Inl err \<Rightarrow> Inl err
         | Inr c \<Rightarrow>
        (case getitem m DispatchUpperLimit g t of
           Inl err \<Rightarrow> Inl err
         | Inr u \<Rightarrow> Inr (Equal (Add d c) u)))))"

text \<open>
  The rule of the constraint \<open>Curtailment_Rate[p, e]\<close>. Python evaluates the left sum,
  then the parameter, then the right sum. When no pair matches, both sums are the
  number 0, the comparison is a plain Boolean, and the framework rejects a rule that
  returns one.
\<close>

definition Curtailment_Rate_rule :: "base_model \<Rightarrow> param \<Rightarrow> limit_key \<Rightarrow> error + relation" where
  "Curtailment_Rate_rule m P k =
     (case k of (p, e) \<Rightarrow>
        (case collect (weighted m Curtailment) (matching_pairs m p e) of
           Inl err \<Rightarrow> Inl err
         | Inr ls \<Rightarrow>
        (case param_getitem P (p, e) of
           Inl err \<Rightarrow> Inl err
         | Inr rate \<Rightarrow>
        (case collect (weighted m DispatchUpperLimit) (matching_pairs m p e) of
           Inl err \<Rightarrow> Inl err
         | Inr rs \<Rightarrow>
             if matching_pairs m p e = [] then Inl (ValueError ''Curtailment_Rate'')
             else Inr (LessEq (py_sum ls) (Mul (Const rate) (py_sum rs)))))))"

text \<open>An indexed component holds the result of its rule at every member of its index set.\<close>

definition construct_indexed :: "('i \<Rightarrow> error + 'a) \<Rightarrow> 'i list \<Rightarrow> error + ('i \<times> 'a) list" where
  "construct_indexed rule ix =
     collect (\<lambda>i. case rule i of Inl err \<Rightarrow> Inl err | Inr a \<Rightarrow> Inr (i, a)) ix"

record components =
  PERIOD_Curtailment_MAX :: "limit_key list"
  max_curtailment_Rate :: param
  Curtailment_var :: var_decl
  Curtailment_Cost :: "(limit_key \<times> expr) list"
  Dispatch_Curtailment :: "((gen \<times> timepoint) \<times> relation) list"
  Curtailment_Rate :: "(limit_key \<times> relation) list"

text \<open>
  The components are built in the order of their declaration, from the base model and
  the loaded data; the first error ends the build.
\<close>

definition define_components :: "base_model \<Rightarrow> switch_data \<Rightarrow> error + components" where
  "define_components m d =
     (case construct_PERIOD_Curtailment_MAX m (PERIOD_Curtailment_MAX_data d) of
        Inl err \<Rightarrow> Inl err
      | Inr ks \<Rightarrow>
     (case construct_max_curtailment_Rate ks (max_curtailment_Rate_data d) of
        Inl err \<Rightarrow> Inl err
      | Inr P \<Rightarrow>
     (case construct_indexed (Curtailment_Cost_rule m) ks of
        Inl err \<Rightarrow> Inl err
      | Inr cost \<Rightarrow>
     (case construct_indexed (Dispatch_Curtailment_rule m) (GEN_TPS m) of
        Inl err \<Rightarrow> Inl err
      | Inr dc \<Rightarrow>
     (case construct_indexed (Curtailment_Rate_rule m P) ks of
        Inl err \<Rightarrow> Inl err
      | Inr cr \<Rightarrow>
          Inr \<lparr>PERIOD_Curtailment_MAX = ks,
               max_curtailment_Rate = P,
               Curtailment_var = \<lparr>var_index = GEN_TPS m, var_domain = NonNegativeReals\<rparr>,
               Curtailment_Cost = cost,
               Dispatch_Curtailment = dc,
               Curtailment_Rate = cr\<rparr>)))))"

text \<open>
  A solution is feasible for the module when the declared variable lies in its domain at
  every index and every constraint of the module holds.
\<close>

definition feasible :: "components \<Rightarrow> solution \<Rightarrow> bool" where
  "feasible c sol =
     (list_all (\<lambda>(g, t). in_domain (var_domain (Curtailment_var c)) (sol Curtailment g t))
        (var_index (Curtailment_var c))
      \<and> list_all (\<lambda>(i, r). holds sol r) (Dispatch_Curtailment c)
      \<and> list_all (\<lambda>(k, r). holds sol r) (Curtailment_Rate c))"

subsection \<open>load_inputs\<close>

text \<open>
  \<^verbatim>\<open>os.path.join\<close> for two components: an absolute second component replaces the
  first, and a separator is inserted unless the first is empty or already ends in one.
\<close>

definition path_join :: "string \<Rightarrow> string \<Rightarrow> string" where
  "path_join a b =
     (if b \<noteq> [] \<and> hd b = CHR ''/'' then b
      else if a = [] \<or> last a = CHR ''/'' then a @ b
      else a @ ''/'' @ b)"

text \<open>
  Modelled from the spec: the input file is a delimited table with a header of column
  names and one row per constrained (period, energy source) pair. The file system maps
  a path to the table stored there, if any.
\<close>

datatype cell = IntCell int | NumCell real | StrCell string

record table =
  header :: "string list"
  rows :: "cell list list"

type_synonym filesystem = "string \<rightharpoonup> table"

text \<open>The keyword arguments of the call in \<^verbatim>\<open>load_inputs\<close>.\<close>

record load_args =
  filename :: string
  select :: "string list"
  index :: string
  param :: "string list"

text \<open>
  Modelled from the spec: one row restricted to the selected columns, in the order of
  the selection. A row that does not fit the header, or a selected column that the
  header lacks, is a malformed file.
\<close>

definition select_row :: "string \<Rightarrow> string list \<Rightarrow> string list \<Rightarrow> cell list \<Rightarrow> error + cell list" where
  "select_row file names hd_row r =
     (if length r = length hd_row
      then collect (\<lambda>n. case map_of (zip hd_row r) n of
                           None \<Rightarrow> Inl (ValueError file)
                         | Some c \<Rightarrow> Inr c) names
      else Inl (ValueError file))"

text \<open>
  Modelled from the spec: a selected row gives the two columns of the key, a period and
  an energy source, and the number of the parameter. Any other row is malformed.
\<close>

fun cell_number :: "cell \<Rightarrow> real option" where
  "cell_number (IntCell n) = Some (of_int n)"
| "cell_number (NumCell r) = Some r"
| "cell_number (StrCell s) = None"

fun decode_row :: "string \<Rightarrow> cell list \<Rightarrow> error + (limit_key \<times> real)" where
  "decode_row file [IntCell p, StrCell e, c] =
     (case cell_number c of
        Some r \<Rightarrow> Inr ((p, e), r)
      | None \<Rightarrow> Inl (ValueError file))"
| "decode_row file r = Inl (ValueError file)"

text \<open>
  Modelled from the spec: the tabular-file loading utility \<^verbatim>\<open>load_aug\<close> of the
  repository is not part of the module. The spec says that it reads one mandatory
  tabular file with the selected columns and populates the key set and the parameter
  keyed by (period, energy source), one row per constrained pair; that a missing file
  is a fatal load-time error with no default substitution; and that a malformed file is
  fatal too.
\<close>

definition load_aug :: "filesystem \<Rightarrow> load_args \<Rightarrow> error + switch_data" where
  "load_aug fs args =
     (case fs (filename args) of
        None \<Rightarrow> Inl (IOError (filename args))
      | Some tab \<Rightarrow>
     (case collect (select_row (filename args) (select args) (header tab)) (rows tab) of
        Inl err \<Rightarrow> Inl err
      | Inr sel \<Rightarrow>
     (case collect (decode_row (filename args)) sel of
        Inl err \<Rightarrow> Inl err
      | Inr kvs \<Rightarrow>
          Inr \<lparr>PERIOD_Curtailment_MAX_data = map fst kvs,
               max_curtailment_Rate_data = kvs\<rparr>)))"

text \<open>
  \<^verbatim>\<open>load_inputs\<close> itself: one call of the loader, for the file
  \<^verbatim>\<open>curtailment_rate_max.tab\<close> of the inputs directory.
\<close>

definition load_inputs :: "filesystem \<Rightarrow> string \<Rightarrow> error + switch_data" where
  "load_inputs fs inputs_dir =
     load_aug fs
       \<lparr>filename = path_join inputs_dir ''curtailment_rate_max.tab'',
        select = [''Period'', ''Energy_Source'', ''Max_Curtailment_Rate''],
        index = ''PERIOD_Curtailment_MAX'',
        param = [''max_curtailment_Rate'']\<rparr>"

text \<open>
  Modelled from the spec: the driver that calls the phases of the module is not part of
  the module. The spec fixes the lifecycle: the data are loaded, then the components are
  built from them; a failed load ends the run before any component is built.
\<close>

definition create_instance :: "base_model \<Rightarrow> filesystem \<Rightarrow> string \<Rightarrow> error + components" where
  "create_instance m fs inputs_dir =
     (case load_inputs fs inputs_dir of
        Inl err \<Rightarrow> Inl err
      | Inr d \<Rightarrow> define_components m d)"

subsection \<open>post_solve\<close>

text \<open>
  The solved instance: the base model, the further parameters that the report reads, and
  the values of the solved components.
\<close>

record solved_instance = base_model +
  gen_dbid :: "gen \<Rightarrow> string"
  gen_tech :: "gen \<Rightarrow> string"
  gen_load_zone :: "gen \<Rightarrow> string"
  tp_timestamp :: "timepoint \<Rightarrow> string"
  tp_weight_in_year :: "timepoint \<Rightarrow> real"
  tp_period :: "timepoint \<Rightarrow> period"
  gen_variable_om :: "gen \<Rightarrow> real"
  gen_uses_fuel :: "gen \<Rightarrow> bool"
  FUELS_FOR_GEN :: "gen \<Rightarrow> fuel list"
  DispatchEmissions :: "gen \<Rightarrow> timepoint \<Rightarrow> fuel \<Rightarrow> real"
  solved :: solution

text \<open>
  One record of \<^verbatim>\<open>dispatch_normalized_dat\<close>. The columns that copy a parameter of
  the same name carry the suffix \<open>_col\<close>.
\<close>

record dispatch_row =
  generation_project :: gen
  gen_dbid_col :: string
  gen_tech_col :: string
  gen_load_zone_col :: string
  gen_energy_source_col :: energy_source
  timestamp :: string
  tp_weight_in_year_hrs :: real
  period_col :: period
  DispatchGen_MW_ideal :: real
  DispatchGen_MW_actual :: real
  Energy_GWh_typical_yr_ideal :: real
  Energy_GWh_typical_yr_actual :: real
  VariableCost_per_yr :: real
  DispatchEmissions_tCO2_per_typical_yr :: "real option"

definition py_sum_real :: "real list \<Rightarrow> real" where
  "py_sum_real xs = foldl (+) 0 xs"

definition detail_record :: "solved_instance \<Rightarrow> gen \<times> timepoint \<Rightarrow> dispatch_row" where
  "detail_record inst gt =
     (case gt of (g, t) \<Rightarrow>
        \<lparr>generation_project = g,
         gen_dbid_col = gen_dbid inst g,
         gen_tech_col = gen_tech inst g,
         gen_load_zone_col = gen_load_zone inst g,
         gen_energy_source_col = gen_energy_source inst g,
         timestamp = tp_timestamp inst t,
         tp_weight_in_year_hrs = tp_weight_in_year inst t,
         period_col = tp_period inst t,
         DispatchGen_MW_ideal = solved inst DispatchUpperLimit g t,
         DispatchGen_MW_actual = solved inst DispatchGen g t,
         Energy_GWh_typical_yr_ideal =
           solved inst DispatchUpperLimit g t * tp_weight_in_year inst t / 1000,
         Energy_GWh_typical_yr_actual =
           solved inst DispatchGen g t * tp_weight_in_year inst t / 1000,
         VariableCost_per_yr =
           solved inst DispatchUpperLimit g t * gen_variable_om inst g
             * tp_weight_in_year inst t,
         DispatchEmissions_tCO2_per_typical_yr =
           (if gen_uses_fuel inst g
            then Some (py_sum_real
                   (map (\<lambda>f. DispatchEmissions inst g t f * tp_weight_in_year inst t)
                      (FUELS_FOR_GEN inst g)))
            else None)\<rparr>)"

definition dispatch_normalized_dat :: "solved_instance \<Rightarrow> dispatch_row list" where
  "dispatch_normalized_dat inst = map (detail_record inst) (GEN_TPS inst)"

text \<open>
  The data frame library's \<^verbatim>\<open>groupby(...).sum()\<close>: the rows are grouped by the key
  columns, the groups come out in the order of their keys, and every other column is
  summed within its group. A missing value (the \<^verbatim>\<open>None\<close> of a project without fuel)
  is skipped by the sum, and the sum of no values is 0.
\<close>

type_synonym group_key = "string \<times> energy_source \<times> period"

definition group_key_of :: "dispatch_row \<Rightarrow> group_key" where
  "group_key_of r = (gen_tech_col r, gen_energy_source_col r, period_col r)"

fun sum_skipna :: "real option list \<Rightarrow> real" where
  "sum_skipna [] = 0"
| "sum_skipna (None # xs) = sum_skipna xs"
| "sum_skipna (Some v # xs) = v + sum_skipna xs"

record summary_row =
  sum_Energy_GWh_typical_yr_ideal :: real
  sum_Energy_GWh_typical_yr_actual :: real
  sum_VariableCost_per_yr :: real
  sum_DispatchEmissions_tCO2_per_typical_yr :: real

definition group_sum :: "dispatch_row list \<Rightarrow> summary_row" where
  "group_sum rs =
     \<lparr>sum_Energy_GWh_typical_yr_ideal = sum_list (map Energy_GWh_typical_yr_ideal rs),
      sum_Energy_GWh_typical_yr_actual = sum_list (map Energy_GWh_typical_yr_actual rs),
      sum_VariableCost_per_yr = sum_list (map VariableCost_per_yr rs),
      sum_DispatchEmissions_tCO2_per_typical_yr =
        sum_skipna (map DispatchEmissions_tCO2_per_typical_yr rs)\<rparr>"

definition annual_summary :: "dispatch_row list \<Rightarrow> (group_key \<times> summary_row) list" where
  "annual_summary df =
     map (\<lambda>k. (k, group_sum (filter (\<lambda>r. group_key_of r = k) df)))
       (sort (remdups (map group_key_of df)))"

text \<open>
  The two files that the report writes. A data frame built from no records has no
  columns, so making \<open>generation_project\<close> and \<open>timestamp\<close> its index raises
  \<open>KeyError\<close> before anything is written.
\<close>

datatype csv =
    DetailCsv "dispatch_row list"
  | SummaryCsv "(group_key \<times> summary_row) list"

definition post_solve :: "solved_instance \<Rightarrow> string \<Rightarrow> error + (string \<times> csv) list" where
  "post_solve inst outdir =
     (let dispatch_full_df = dispatch_normalized_dat inst in
      if dispatch_full_df = [] then Inl (KeyError ''generation_project'')
      else Inr [(path_join outdir ''dispatch.csv'', DetailCsv dispatch_full_df),
                (path_join outdir ''Curtailment_energy.csv'',
                 SummaryCsv (annual_summary dispatch_full_df))])"

subsection \<open>A small instance\<close>

text \<open>
  One period with two timepoints, a solar and a wind project, and a limit of one fifth on
  the curtailment of solar power in that period.
\<close>

definition example_base :: base_model where
  "example_base =
     \<lparr>PERIODS = [2030],
      ENERGY_SOURCES = [''Solar'', ''Wind''],
      GENERATION_PROJECTS = [''G1'', ''G2''],
      TPS_IN_PERIOD = (\<lambda>p. if p = 2030 then [1, 2] else []),
      GEN_TPS = [(''G1'', 1), (''G1'', 2), (''G2'', 1), (''G2'', 2)],
      gen_energy_source = (\<lambda>g. if g = ''G1'' then ''Solar'' else ''Wind''),
      tp_weight = (\<lambda>t. 10),
      base_index = (\<lambda>c. [(''G1'', 1), (''G1'', 2), (''G2'', 1), (''G2'', 2)])\<rparr>"

definition example_data :: switch_data where
  "example_data =
     \<lparr>PERIOD_Curtailment_MAX_data = [(2030, ''Solar'')],
      max_curtailment_Rate_data = [((2030, ''Solar''), 1 / 5)]\<rparr>"

definition example_components :: components where
  "example_components =
     \<lparr>PERIOD_Curtailment_MAX = [(2030, ''Solar'')],
      max_curtailment_Rate =
        \<lparr>param_index = [(2030, ''Solar'')],
         param_values = [((2030, ''Solar''), 1 / 5)],
         param_default = 1\<rparr>,
      Curtailment_var =
        \<lparr>var_index = [(''G1'', 1), (''G1'', 2), (''G2'', 1), (''G2'', 2)],
         var_domain = NonNegativeReals\<rparr>,
      Curtailment_Cost =
        [((2030, ''Solar''),
          Add (Add (Const 0) (Ref Curtailment ''G1'' 1)) (Ref Curtailment ''G1'' 2))],
      Dispatch_Curtailment =
        [((''G1'', 1), Equal (Add (Ref DispatchGen ''G1'' 1) (Ref Curtailment ''G1'' 1))
                         (Ref DispatchUpperLimit ''G1'' 1)),
         ((''G1'', 2), Equal (Add (Ref DispatchGen ''G1'' 2) (Ref Curtailment ''G1'' 2))
                         (Ref DispatchUpperLimit ''G1'' 2)),
         ((''G2'', 1), Equal (Add (Ref DispatchGen ''G2'' 1) (Ref Curtailment ''G2'' 1))
                         (Ref DispatchUpperLimit ''G2'' 1)),
         ((''G2'', 2), Equal (Add (Ref DispatchGen ''G2'' 2) (Ref Curtailment ''G2'' 2))
                         (Ref DispatchUpperLimit ''G2'' 2))],
      Curtailment_Rate =
        [((2030, ''Solar''),
          LessEq
            (Add (Add (Const 0) (Mul (Ref Curtailment ''G1'' 1) (Const 10)))
               (Mul (Ref Curtailment ''G1'' 2) (Const 10)))
            (Mul (Const (1 / 5))
               (Add (Add (Const 0) (Mul (Ref DispatchUpperLimit ''G1'' 1) (Const 10)))
                  (Mul (Ref DispatchUpperLimit ''G1'' 2) (Const 10)))))]\<rparr>"

definition example_solution :: solution where
  "example_solution c g t =
     (case c of DispatchUpperLimit \<Rightarrow> 100 | DispatchGen \<Rightarrow> 80 | Curtailment \<Rightarrow> 20)"

text \<open>
  Two base models on which the build fails. In the first there is no wind project, and
  the data limit both solar and wind power. In the second the solar project \<open>G1\<close> is
  not in \<open>GEN_TPS\<close> at timepoint 2, as for a project that is not in operation then.
\<close>

definition example_no_wind_base :: base_model where
  "example_no_wind_base =
     \<lparr>PERIODS = [2030],
      ENERGY_SOURCES = [''Solar'', ''Wind''],
      GENERATION_PROJECTS = [''G1''],
      TPS_IN_PERIOD = (\<lambda>p. if p = 2030 then [1, 2] else []),
      GEN_TPS = [(''G1'', 1), (''G1'', 2)],
      gen_energy_source = (\<lambda>g. ''Solar''),
      tp_weight = (\<lambda>t. 10),
      base_index = (\<lambda>c. [(''G1'', 1), (''G1'', 2)])\<rparr>"

definition example_two_keys :: switch_data where
  "example_two_keys =
     \<lparr>PERIOD_Curtailment_MAX_data = [(2030, ''Solar''), (2030, ''Wind'')],
      max_curtailment_Rate_data = [((2030, ''Solar''), 1 / 5), ((2030, ''Wind''), 1 / 2)]\<rparr>"

definition example_gap_base :: base_model where
  "example_gap_base =
     \<lparr>PERIODS = [2030],
      ENERGY_SOURCES = [''Solar'', ''Wind''],
      GENERATION_PROJECTS = [''G1'', ''G2''],
      TPS_IN_PERIOD = (\<lambda>p. if p = 2030 then [1, 2] else []),
      GEN_TPS = [(''G1'', 1), (''G2'', 1), (''G2'', 2)],
      gen_energy_source = (\<lambda>g. if g = ''G1'' then ''Solar'' else ''Wind''),
      tp_weight = (\<lambda>t. 10),
      base_index = (\<lambda>c. [(''G1'', 1), (''G2'', 1), (''G2'', 2)])\<rparr>"

text \<open>The input directory \<open>inputs\<close> holds the table of limits with that one row.\<close>

definition example_table :: table where
  "example_table =
     \<lparr>header = [''Period'', ''Energy_Source'', ''Max_Curtailment_Rate''],
      rows = [[IntCell 2030, StrCell ''Solar'', NumCell (1 / 5)]]\<rparr>"

definition example_fs :: filesystem where
  "example_fs = [''inputs/curtailment_rate_max.tab'' \<mapsto> example_table]"

text \<open>
  A table that gives the key (2030, Solar) twice, and what is loaded and built from it.
\<close>

definition example_dup_table :: table where
  "example_dup_table =
     \<lparr>header = [''Period'', ''Energy_Source'', ''Max_Curtailment_Rate''],
      rows = [[IntCell 2030, StrCell ''Solar'', NumCell (3 / 10)],
              [IntCell 2030, StrCell ''Solar'', NumCell (2 / 5)]]\<rparr>"

definition example_dup_fs :: filesystem where
  "example_dup_fs = [''inputs/curtailment_rate_max.tab'' \<mapsto> example_dup_table]"

definition example_dup_data :: switch_data where
  "example_dup_data =
     \<lparr>PERIOD_Curtailment_MAX_data = [(2030, ''Solar''), (2030, ''Solar'')],
      max_curtailment_Rate_data = [((2030, ''Solar''), 3 / 10), ((2030, ''Solar''), 2 / 5)]\<rparr>"

definition example_dup_components :: components where
  "example_dup_components =
     example_components
       \<lparr>max_curtailment_Rate :=
          \<lparr>param_index = [(2030, ''Solar'')],
           param_values = [((2030, ''Solar''), 2 / 5), ((2030, ''Solar''), 3 / 10)],
           param_default = 1\<rparr>,
        Curtailment_Rate :=
          [((2030, ''Solar''),
            LessEq
              (Add (Add (Const 0) (Mul (Ref Curtailment ''G1'' 1) (Const 10)))
                 (Mul (Ref Curtailment ''G1'' 2) (Const 10)))
              (Mul (Const (2 / 5))
                 (Add (Add (Const 0) (Mul (Ref DispatchUpperLimit ''G1'' 1) (Const 10)))
                    (Mul (Ref DispatchUpperLimit ''G1'' 2) (Const 10)))))]\<rparr>"

text \<open>
  A solved instance for the report: five projects at one timepoint of period 2030. The
  two solar projects share a group; the two gas projects share a group in which only
  \<open>G3\<close> uses fuel; the wind project is alone. \<open>G1\<close> is the project of the report
  scenario: ceiling 100, dispatch 80, variable cost 2, yearly weight 10.
\<close>

definition example_instance :: solved_instance where
  "example_instance =
     \<lparr>PERIODS = [2030],
      ENERGY_SOURCES = [''Solar'', ''Wind'', ''Gas''],
      GENERATION_PROJECTS = [''G1'', ''G2'', ''G3'', ''G4'', ''G5''],
      TPS_IN_PERIOD = (\<lambda>p. if p = 2030 then [1] else []),
      GEN_TPS = [(''G1'', 1), (''G2'', 1), (''G3'', 1), (''G4'', 1), (''G5'', 1)],
      gen_energy_source =
        (\<lambda>g. if g = ''G1'' \<or> g = ''G2'' then ''Solar''
             else if g = ''G5'' then ''Wind'' else ''Gas''),
      tp_weight = (\<lambda>t. 10),
      base_index = (\<lambda>c. [(''G1'', 1), (''G2'', 1), (''G3'', 1), (''G4'', 1), (''G5'', 1)]),
      gen_dbid = (\<lambda>g. g),
      gen_tech =
        (\<lambda>g. if g = ''G1'' \<or> g = ''G2'' then ''PV''
             else if g = ''G5'' then ''Turbine'' else ''CCGT''),
      gen_load_zone = (\<lambda>g. ''Zone''),
      tp_timestamp = (\<lambda>t. ''T1''),
      tp_weight_in_year = (\<lambda>t. 10),
      tp_period = (\<lambda>t. 2030),
      gen_variable_om = (\<lambda>g. 2),
      gen_uses_fuel = (\<lambda>g. g = ''G3''),
      FUELS_FOR_GEN = (\<lambda>g. if g = ''G3'' then [''Gas'', ''Biogas''] else []),
      DispatchEmissions = (\<lambda>g t f. if f = ''Gas'' then 3 else 1),
      solved = (\<lambda>c g t. case c of DispatchUpperLimit \<Rightarrow> 100 | DispatchGen \<Rightarrow> 80
                                | Curtailment \<Rightarrow> 20)\<rparr>"

section \<open>Properties\<close>

subsection \<open>Building indexed components\<close>

lemma construct_indexed_eq_map:
  assumes "construct_indexed rule ix = Inr cs"
    and "\<And>i a. i \<in> set ix \<Longrightarrow> rule i = Inr a \<Longrightarrow> a = h i"
  shows "cs = map (\<lambda>i. (i, h i)) ix"
  using assms
proof (induction ix arbitrary: cs)
  case Nil
  then show ?case by (simp add: construct_indexed_def)
next
  case (Cons i ix)
  from Cons.prems(1) obtain a cs' where
    a: "rule i = Inr a" and cs': "construct_indexed rule ix = Inr cs'" and cs: "cs = (i, a) # cs'"
    by (auto simp: construct_indexed_def split: sum.splits)
  from Cons.prems(2) a have "a = h i" by simp
  moreover from Cons.IH [OF cs'] Cons.prems(2) have "cs' = map (\<lambda>i. (i, h i)) ix" by simp
  ultimately show ?case using cs by simp
qed

lemma define_components_Inr:
  assumes "define_components m d = Inr c"
  shows "construct_PERIOD_Curtailment_MAX m (PERIOD_Curtailment_MAX_data d) = Inr (PERIOD_Curtailment_MAX c)"
    and "construct_max_curtailment_Rate (PERIOD_Curtailment_MAX c) (max_curtailment_Rate_data d) = Inr (max_curtailment_Rate c)"
    and "construct_indexed (Curtailment_Cost_rule m) (PERIOD_Curtailment_MAX c) = Inr (Curtailment_Cost c)"
    and "construct_indexed (Dispatch_Curtailment_rule m) (GEN_TPS m) = Inr (Dispatch_Curtailment c)"
    and "construct_indexed (Curtailment_Rate_rule m (max_curtailment_Rate c)) (PERIOD_Curtailment_MAX c) = Inr (Curtailment_Rate c)"
    and "Curtailment_var c = \<lparr>var_index = GEN_TPS m, var_domain = NonNegativeReals\<rparr>"
  using assms by (auto simp: define_components_def split: sum.splits)

lemma Dispatch_Curtailment_rule_Inr:
  assumes "Dispatch_Curtailment_rule m (g, t) = Inr r"
  shows "r = Equal (Add (Ref DispatchGen g t) (Ref Curtailment g t)) (Ref DispatchUpperLimit g t)"
  using assms by (auto simp: Dispatch_Curtailment_rule_def getitem_def split: if_splits)

lemma Dispatch_Curtailment_built:
  assumes "define_components m d = Inr c"
  shows "Dispatch_Curtailment c =
    map (\<lambda>(g, t). ((g, t), Equal (Add (Ref DispatchGen g t) (Ref Curtailment g t)) (Ref DispatchUpperLimit g t)))
      (GEN_TPS m)"
proof -
  have "Dispatch_Curtailment c =
    map (\<lambda>i. (i, case i of (g, t) \<Rightarrow> Equal (Add (Ref DispatchGen g t) (Ref Curtailment g t)) (Ref DispatchUpperLimit g t)))
      (GEN_TPS m)"
  proof (rule construct_indexed_eq_map [OF define_components_Inr(4) [OF assms]])
    fix i a
    assume "Dispatch_Curtailment_rule m i = Inr a"
    then show "a = (case i of (g, t) \<Rightarrow> Equal (Add (Ref DispatchGen g t) (Ref Curtailment g t)) (Ref DispatchUpperLimit g t))"
      by (cases i) (simp add: Dispatch_Curtailment_rule_Inr)
  qed
  then show ?thesis by (simp add: case_prod_unfold)
qed

lemma feasible_Dispatch_Curtailment:
  assumes "define_components m d = Inr c" and "feasible c sol" and "(g, t) \<in> set (GEN_TPS m)"
  shows "sol DispatchGen g t + sol Curtailment g t = sol DispatchUpperLimit g t"
proof -
  from assms(2) have "list_all (\<lambda>(i, r). holds sol r) (Dispatch_Curtailment c)"
    by (simp add: feasible_def)
  then have "list_all (\<lambda>(g, t). sol DispatchGen g t + sol Curtailment g t = sol DispatchUpperLimit g t) (GEN_TPS m)"
    unfolding Dispatch_Curtailment_built [OF assms(1)]
    by (simp add: list_all_iff case_prod_unfold)
  with assms(3) show ?thesis by (auto simp: list_all_iff)
qed

lemma feasible_Curtailment_nonneg:
  assumes "define_components m d = Inr c" and "feasible c sol" and "(g, t) \<in> set (GEN_TPS m)"
  shows "0 \<le> sol Curtailment g t"
  using assms(2,3) define_components_Inr(6) [OF assms(1)]
  by (auto simp: feasible_def list_all_iff)

lemma expr_value_foldl_Add:
  "expr_value sol (foldl Add a ts) = expr_value sol a + sum_list (map (expr_value sol) ts)"
  by (induction ts arbitrary: a) simp_all

lemma expr_value_py_sum: "expr_value sol (py_sum ts) = sum_list (map (expr_value sol) ts)"
  by (simp add: py_sum_def expr_value_foldl_Add)

lemma collect_eq_map:
  assumes "collect f xs = Inr ys"
    and "\<And>x y. x \<in> set xs \<Longrightarrow> f x = Inr y \<Longrightarrow> y = h x"
  shows "ys = map h xs"
  using assms
proof (induction xs arbitrary: ys)
  case Nil
  then show ?case by simp
next
  case (Cons x xs)
  from Cons.prems(1) obtain y ys' where
    y: "f x = Inr y" and ys': "collect f xs = Inr ys'" and ys: "ys = y # ys'"
    by (auto split: sum.splits)
  from Cons.prems(2) y have "y = h x" by simp
  moreover from Cons.IH [OF ys'] Cons.prems(2) have "ys' = map h xs" by simp
  ultimately show ?case using ys by simp
qed

lemma weighted_Inr:
  assumes "weighted m c (g, t) = Inr y"
  shows "y = Mul (Ref c g t) (Const (tp_weight m t))"
  using assms by (auto simp: weighted_def getitem_def split: if_splits)

lemma collect_weighted:
  assumes "collect (weighted m c) xs = Inr ys"
  shows "ys = map (\<lambda>(g, t). Mul (Ref c g t) (Const (tp_weight m t))) xs"
proof (rule collect_eq_map [OF assms])
  fix x y
  assume "weighted m c x = Inr y"
  then show "y = (case x of (g, t) \<Rightarrow> Mul (Ref c g t) (Const (tp_weight m t)))"
    by (cases x) (simp add: weighted_Inr)
qed

lemma Curtailment_Rate_rule_Inr:
  assumes "Curtailment_Rate_rule m P (p, e) = Inr rel"
  shows "\<exists>rate. param_getitem P (p, e) = Inr rate
    \<and> rel = LessEq
        (py_sum (map (\<lambda>(g, t). Mul (Ref Curtailment g t) (Const (tp_weight m t)))
           (matching_pairs m p e)))
        (Mul (Const rate)
           (py_sum (map (\<lambda>(g, t). Mul (Ref DispatchUpperLimit g t) (Const (tp_weight m t)))
              (matching_pairs m p e))))"
proof -
  from assms obtain ls rate rs where
    ls: "collect (weighted m Curtailment) (matching_pairs m p e) = Inr ls"
    and rate: "param_getitem P (p, e) = Inr rate"
    and rs: "collect (weighted m DispatchUpperLimit) (matching_pairs m p e) = Inr rs"
    and rel: "rel = LessEq (py_sum ls) (Mul (Const rate) (py_sum rs))"
    by (auto simp: Curtailment_Rate_rule_def split: sum.splits if_splits)
  from rate rel collect_weighted [OF ls] collect_weighted [OF rs] show ?thesis by simp
qed

lemma construct_indexed_map_of:
  assumes "construct_indexed rule ix = Inr cs" and "i \<in> set ix"
  shows "\<exists>a. rule i = Inr a \<and> map_of cs i = Some a"
  using assms
proof (induction ix arbitrary: cs)
  case Nil
  then show ?case by simp
next
  case (Cons j ix)
  from Cons.prems(1) obtain a cs' where
    a: "rule j = Inr a" and cs': "construct_indexed rule ix = Inr cs'" and cs: "cs = (j, a) # cs'"
    by (auto simp: construct_indexed_def split: sum.splits)
  show ?case
  proof (cases "i = j")
    case True
    with a cs show ?thesis by simp
  next
    case False
    with Cons.prems(2) have "i \<in> set ix" by simp
    from Cons.IH [OF cs' this] False cs show ?thesis by simp
  qed
qed

lemma construct_indexed_keys:
  assumes "construct_indexed rule ix = Inr cs"
  shows "map fst cs = ix"
  using assms
proof (induction ix arbitrary: cs)
  case Nil
  then show ?case by (simp add: construct_indexed_def)
next
  case (Cons j ix)
  from Cons.prems(1) obtain a cs' where
    cs': "construct_indexed rule ix = Inr cs'" and cs: "cs = (j, a) # cs'"
    by (auto simp: construct_indexed_def split: sum.splits)
  from Cons.IH [OF cs'] cs show ?case by simp
qed

subsection \<open>The small instance builds and has a feasible solution\<close>

lemma example_built: "define_components example_base example_data = Inr example_components"
  by code_simp

lemma example_feasible: "feasible example_components example_solution"
  by code_simp

subsection \<open>The constraint Dispatch_Curtailment\<close>

text \<open>
  Claim C1. When the components are built, \<open>Dispatch_Curtailment\<close> holds exactly one
  constraint for every (project, timepoint) pair of \<open>GEN_TPS\<close>, and that constraint is
  the equality \<open>DispatchGen[g, t] + Curtailment[g, t] == DispatchUpperLimit[g, t]\<close>.
  So in every feasible solution dispatched power plus curtailed power equals the
  dispatch ceiling of the pair.
\<close>

theorem Dispatch_Curtailment_equality:
  assumes "define_components m d = Inr c"
  shows "Dispatch_Curtailment c =
      map (\<lambda>(g, t). ((g, t),
             Equal (Add (Ref DispatchGen g t) (Ref Curtailment g t)) (Ref DispatchUpperLimit g t)))
        (GEN_TPS m)
    \<and> (\<forall>sol. feasible c sol \<longrightarrow>
         (\<forall>(g, t) \<in> set (GEN_TPS m).
            sol DispatchGen g t + sol Curtailment g t = sol DispatchUpperLimit g t))"
  using Dispatch_Curtailment_built [OF assms] feasible_Dispatch_Curtailment [OF assms]
  by blast

theorem Dispatch_Curtailment_equality_witness:
  "define_components example_base example_data = Inr example_components
   \<and> Dispatch_Curtailment example_components =
       [((''G1'', 1), Equal (Add (Ref DispatchGen ''G1'' 1) (Ref Curtailment ''G1'' 1))
                        (Ref DispatchUpperLimit ''G1'' 1)),
        ((''G1'', 2), Equal (Add (Ref DispatchGen ''G1'' 2) (Ref Curtailment ''G1'' 2))
                        (Ref DispatchUpperLimit ''G1'' 2)),
        ((''G2'', 1), Equal (Add (Ref DispatchGen ''G2'' 1) (Ref Curtailment ''G2'' 1))
                        (Ref DispatchUpperLimit ''G2'' 1)),
        ((''G2'', 2), Equal (Add (Ref DispatchGen ''G2'' 2) (Ref Curtailment ''G2'' 2))
                        (Ref DispatchUpperLimit ''G2'' 2))]
   \<and> feasible example_components example_solution
   \<and> example_solution DispatchGen ''G1'' 1 + example_solution Curtailment ''G1'' 1
       = example_solution DispatchUpperLimit ''G1'' 1"
proof -
  note t = Dispatch_Curtailment_equality [OF example_built]
  from t have "Dispatch_Curtailment example_components =
      map (\<lambda>(g, t). ((g, t),
             Equal (Add (Ref DispatchGen g t) (Ref Curtailment g t)) (Ref DispatchUpperLimit g t)))
        (GEN_TPS example_base)" by (rule conjunct1)
  then have 1: "Dispatch_Curtailment example_components =
       [((''G1'', 1), Equal (Add (Ref DispatchGen ''G1'' 1) (Ref Curtailment ''G1'' 1))
                        (Ref DispatchUpperLimit ''G1'' 1)),
        ((''G1'', 2), Equal (Add (Ref DispatchGen ''G1'' 2) (Ref Curtailment ''G1'' 2))
                        (Ref DispatchUpperLimit ''G1'' 2)),
        ((''G2'', 1), Equal (Add (Ref DispatchGen ''G2'' 1) (Ref Curtailment ''G2'' 1))
                        (Ref DispatchUpperLimit ''G2'' 1)),
        ((''G2'', 2), Equal (Add (Ref DispatchGen ''G2'' 2) (Ref Curtailment ''G2'' 2))
                        (Ref DispatchUpperLimit ''G2'' 2))]"
    by (simp add: example_base_def)
  have mem: "(''G1'', 1) \<in> set (GEN_TPS example_base)" by (simp add: example_base_def)
  from t example_feasible mem
  have 2: "example_solution DispatchGen ''G1'' 1 + example_solution Curtailment ''G1'' 1
       = example_solution DispatchUpperLimit ''G1'' 1" by blast
  from example_built 1 example_feasible 2 show ?thesis by blast
qed

text \<open>
  Claim C9. In a feasible solution in which the base model keeps \<open>DispatchGen\<close>
  non-negative, neither the dispatch nor the curtailment of a pair of \<open>GEN_TPS\<close>
  exceeds the dispatch ceiling: the variable \<open>Curtailment\<close> is non-negative by its
  domain, and the equality ties the three quantities together.
\<close>

theorem dispatch_and_curtailment_bounded:
  assumes "define_components m d = Inr c" and "feasible c sol"
    and "\<forall>(g, t) \<in> set (GEN_TPS m). 0 \<le> sol DispatchGen g t"
  shows "\<forall>(g, t) \<in> set (GEN_TPS m).
           sol DispatchGen g t \<le> sol DispatchUpperLimit g t
         \<and> sol Curtailment g t \<le> sol DispatchUpperLimit g t"
proof (clarify, rule conjI)
  fix g t
  assume gt: "(g, t) \<in> set (GEN_TPS m)"
  have eq: "sol DispatchGen g t + sol Curtailment g t = sol DispatchUpperLimit g t"
    by (rule feasible_Dispatch_Curtailment [OF assms(1,2) gt])
  have c: "0 \<le> sol Curtailment g t"
    by (rule feasible_Curtailment_nonneg [OF assms(1,2) gt])
  from assms(3) gt have d: "0 \<le> sol DispatchGen g t" by auto
  from eq c show "sol DispatchGen g t \<le> sol DispatchUpperLimit g t" by linarith
  from eq d show "sol Curtailment g t \<le> sol DispatchUpperLimit g t" by linarith
qed

theorem dispatch_and_curtailment_bounded_witness:
  "define_components example_base example_data = Inr example_components
   \<and> feasible example_components example_solution
   \<and> 0 \<le> example_solution DispatchGen ''G2'' 2
   \<and> example_solution DispatchGen ''G2'' 2 \<le> example_solution DispatchUpperLimit ''G2'' 2
   \<and> example_solution Curtailment ''G2'' 2 \<le> example_solution DispatchUpperLimit ''G2'' 2"
proof -
  have nonneg: "\<forall>(g, t) \<in> set (GEN_TPS example_base). 0 \<le> example_solution DispatchGen g t"
    by (simp add: example_solution_def)
  have mem: "(''G2'', 2) \<in> set (GEN_TPS example_base)" by (simp add: example_base_def)
  from dispatch_and_curtailment_bounded [OF example_built example_feasible nonneg] mem
  have "example_solution DispatchGen ''G2'' 2 \<le> example_solution DispatchUpperLimit ''G2'' 2
    \<and> example_solution Curtailment ''G2'' 2 \<le> example_solution DispatchUpperLimit ''G2'' 2"
    by blast
  moreover have "0 \<le> example_solution DispatchGen ''G2'' 2" by (simp add: example_solution_def)
  ultimately show ?thesis using example_built example_feasible by blast
qed

subsection \<open>The constraint Curtailment_Rate\<close>

lemma Curtailment_Rate_built:
  assumes "define_components m d = Inr c" and "(p, e) \<in> set (PERIOD_Curtailment_MAX c)"
  shows "\<exists>rate. param_getitem (max_curtailment_Rate c) (p, e) = Inr rate
    \<and> map_of (Curtailment_Rate c) (p, e) = Some (LessEq
        (py_sum (map (\<lambda>(g, t). Mul (Ref Curtailment g t) (Const (tp_weight m t)))
           (matching_pairs m p e)))
        (Mul (Const rate)
           (py_sum (map (\<lambda>(g, t). Mul (Ref DispatchUpperLimit g t) (Const (tp_weight m t)))
              (matching_pairs m p e)))))"
proof -
  from construct_indexed_map_of [OF define_components_Inr(5) [OF assms(1)] assms(2)]
  obtain rel where rule: "Curtailment_Rate_rule m (max_curtailment_Rate c) (p, e) = Inr rel"
    and rel: "map_of (Curtailment_Rate c) (p, e) = Some rel"
    by blast
  from Curtailment_Rate_rule_Inr [OF rule] rel show ?thesis by auto
qed

lemma feasible_Curtailment_Rate:
  assumes "feasible c sol" and "map_of (Curtailment_Rate c) k = Some rel"
  shows "holds sol rel"
proof -
  from assms(2) have "(k, rel) \<in> set (Curtailment_Rate c)" by (rule map_of_SomeD)
  moreover from assms(1) have "list_all (\<lambda>(k, r). holds sol r) (Curtailment_Rate c)"
    by (simp add: feasible_def)
  ultimately show ?thesis by (auto simp: list_all_iff)
qed

lemma weighted_sum_value:
  "expr_value sol (py_sum (map (\<lambda>(g, t). Mul (Ref c g t) (Const (w t))) xs))
     = (\<Sum>(g, t)\<leftarrow>xs. sol c g t * w t)"
  by (simp add: expr_value_py_sum comp_def case_prod_unfold)

text \<open>
  The constraints of a model that builds. Every key \<open>(p, e)\<close> of
  \<open>PERIOD_Curtailment_MAX\<close> then has a constraint \<open>Curtailment_Rate[p, e]\<close>: the sum of
  \<open>Curtailment[g, t] * tp_weight[t]\<close> over the pairs of a generation project \<open>g\<close> with
  energy source \<open>e\<close> and a timepoint \<open>t\<close> of period \<open>p\<close> is at most
  \<open>max_curtailment_Rate[p, e]\<close> times the sum of \<open>DispatchUpperLimit[g, t] * tp_weight[t]\<close>
  over the same pairs, and every feasible solution satisfies this bound.
\<close>

theorem Curtailment_Rate_bound:
  assumes "define_components m d = Inr c" and "(p, e) \<in> set (PERIOD_Curtailment_MAX c)"
  shows "\<exists>rate. param_getitem (max_curtailment_Rate c) (p, e) = Inr rate
    \<and> map_of (Curtailment_Rate c) (p, e) = Some (LessEq
        (py_sum (map (\<lambda>(g, t). Mul (Ref Curtailment g t) (Const (tp_weight m t)))
           (filter (\<lambda>(g, t). gen_energy_source m g = e)
              (List.product (GENERATION_PROJECTS m) (TPS_IN_PERIOD m p)))))
        (Mul (Const rate)
           (py_sum (map (\<lambda>(g, t). Mul (Ref DispatchUpperLimit g t) (Const (tp_weight m t)))
              (filter (\<lambda>(g, t). gen_energy_source m g = e)
                 (List.product (GENERATION_PROJECTS m) (TPS_IN_PERIOD m p)))))))
    \<and> (\<forall>sol. feasible c sol \<longrightarrow>
          (\<Sum>(g, t)\<leftarrow>filter (\<lambda>(g, t). gen_energy_source m g = e)
                       (List.product (GENERATION_PROJECTS m) (TPS_IN_PERIOD m p)).
              sol Curtailment g t * tp_weight m t)
          \<le> rate *
            (\<Sum>(g, t)\<leftarrow>filter (\<lambda>(g, t). gen_energy_source m g = e)
                         (List.product (GENERATION_PROJECTS m) (TPS_IN_PERIOD m p)).
                sol DispatchUpperLimit g t * tp_weight m t))"
proof -
  from Curtailment_Rate_built [OF assms] obtain rate where
    rate: "param_getitem (max_curtailment_Rate c) (p, e) = Inr rate"
    and rel: "map_of (Curtailment_Rate c) (p, e) = Some (LessEq
        (py_sum (map (\<lambda>(g, t). Mul (Ref Curtailment g t) (Const (tp_weight m t)))
           (matching_pairs m p e)))
        (Mul (Const rate)
           (py_sum (map (\<lambda>(g, t). Mul (Ref DispatchUpperLimit g t) (Const (tp_weight m t)))
              (matching_pairs m p e)))))"
    by blast
  have "(\<Sum>(g, t)\<leftarrow>matching_pairs m p e. sol Curtailment g t * tp_weight m t)
      \<le> rate * (\<Sum>(g, t)\<leftarrow>matching_pairs m p e. sol DispatchUpperLimit g t * tp_weight m t)"
    if "feasible c sol" for sol
    using feasible_Curtailment_Rate [OF that rel]
    by (simp only: holds.simps expr_value.simps weighted_sum_value)
  with rate rel show ?thesis
    unfolding matching_pairs_def by blast
qed

theorem Curtailment_Rate_bound_witness:
  "define_components example_base example_data = Inr example_components
   \<and> (2030, ''Solar'') \<in> set (PERIOD_Curtailment_MAX example_components)
   \<and> param_getitem (max_curtailment_Rate example_components) (2030, ''Solar'') = Inr (1 / 5)
   \<and> map_of (Curtailment_Rate example_components) (2030, ''Solar'') = Some (LessEq
        (py_sum [Mul (Ref Curtailment ''G1'' 1) (Const 10), Mul (Ref Curtailment ''G1'' 2) (Const 10)])
        (Mul (Const (1 / 5))
           (py_sum [Mul (Ref DispatchUpperLimit ''G1'' 1) (Const 10),
                    Mul (Ref DispatchUpperLimit ''G1'' 2) (Const 10)])))
   \<and> feasible example_components example_solution
   \<and> example_solution Curtailment ''G1'' 1 * 10 + example_solution Curtailment ''G1'' 2 * 10
       \<le> 1 / 5 * (example_solution DispatchUpperLimit ''G1'' 1 * 10
                   + example_solution DispatchUpperLimit ''G1'' 2 * 10)"
proof -
  have mem: "(2030, ''Solar'') \<in> set (PERIOD_Curtailment_MAX example_components)"
    by (simp add: example_components_def)
  have rate: "param_getitem (max_curtailment_Rate example_components) (2030, ''Solar'') = Inr (1 / 5)"
    by (simp add: example_components_def param_getitem_def)
  have pairs: "filter (\<lambda>(g, t). gen_energy_source example_base g = ''Solar'')
      (List.product (GENERATION_PROJECTS example_base) (TPS_IN_PERIOD example_base 2030))
    = [(''G1'', 1), (''G1'', 2)]"
    by (simp add: example_base_def)
  have w: "tp_weight example_base = (\<lambda>t. 10)"
    by (simp add: example_base_def)
  from Curtailment_Rate_bound [OF example_built mem, unfolded pairs w]
  obtain r where
    r: "param_getitem (max_curtailment_Rate example_components) (2030, ''Solar'') = Inr r"
    and rel: "map_of (Curtailment_Rate example_components) (2030, ''Solar'') = Some (LessEq
        (py_sum [Mul (Ref Curtailment ''G1'' 1) (Const 10), Mul (Ref Curtailment ''G1'' 2) (Const 10)])
        (Mul (Const r)
           (py_sum [Mul (Ref DispatchUpperLimit ''G1'' 1) (Const 10),
                    Mul (Ref DispatchUpperLimit ''G1'' 2) (Const 10)])))"
    and bound: "\<forall>sol. feasible example_components sol \<longrightarrow>
        sol Curtailment ''G1'' 1 * 10 + sol Curtailment ''G1'' 2 * 10
          \<le> r * (sol DispatchUpperLimit ''G1'' 1 * 10 + sol DispatchUpperLimit ''G1'' 2 * 10)"
    by auto
  from r rate have "r = 1 / 5" by simp
  with rel bound example_built mem rate example_feasible show ?thesis by blast
qed

text \<open>
  What a successful build says about the base model: every key has at least one matching
  pair, and every matching pair is an index of \<open>Curtailment\<close> and of
  \<open>DispatchUpperLimit\<close>. Otherwise the rule of \<open>Curtailment_Rate\<close> raises, and no
  component set is returned.
\<close>

lemma collect_member:
  assumes "collect f xs = Inr ys" and "x \<in> set xs"
  shows "\<exists>y. f x = Inr y"
  using assms by (induction xs arbitrary: ys) (auto split: sum.splits)

lemma weighted_index:
  assumes "weighted m c (g, t) = Inr y"
  shows "(g, t) \<in> set (index_of m c)"
  using assms by (auto simp: weighted_def getitem_def split: if_splits)

lemma built_matching_pairs:
  assumes "define_components m d = Inr c" and "(p, e) \<in> set (PERIOD_Curtailment_MAX c)"
  shows "matching_pairs m p e \<noteq> []"
    and "set (matching_pairs m p e) \<subseteq> set (GEN_TPS m) \<inter> set (base_index m DispatchUpperLimit)"
proof -
  from construct_indexed_map_of [OF define_components_Inr(5) [OF assms(1)] assms(2)]
  obtain rel where rule: "Curtailment_Rate_rule m (max_curtailment_Rate c) (p, e) = Inr rel"
    by blast
  then obtain ls rs where
    ls: "collect (weighted m Curtailment) (matching_pairs m p e) = Inr ls"
    and rs: "collect (weighted m DispatchUpperLimit) (matching_pairs m p e) = Inr rs"
    and ne: "matching_pairs m p e \<noteq> []"
    by (auto simp: Curtailment_Rate_rule_def split: sum.splits if_splits)
  show "matching_pairs m p e \<noteq> []" by (rule ne)
  show "set (matching_pairs m p e) \<subseteq> set (GEN_TPS m) \<inter> set (base_index m DispatchUpperLimit)"
  proof
    fix x
    assume x: "x \<in> set (matching_pairs m p e)"
    obtain g t where gt: "x = (g, t)" by (cases x)
    from collect_member [OF ls x] gt have "(g, t) \<in> set (index_of m Curtailment)"
      by (auto dest: weighted_index)
    moreover from collect_member [OF rs x] gt have "(g, t) \<in> set (index_of m DispatchUpperLimit)"
      by (auto dest: weighted_index)
    ultimately show "x \<in> set (GEN_TPS m) \<inter> set (base_index m DispatchUpperLimit)"
      using gt by simp
  qed
qed

subsection \<open>The key set PERIOD_Curtailment_MAX\<close>

lemma construct_PERIOD_Curtailment_MAX_Inr:
  assumes "construct_PERIOD_Curtailment_MAX m ks = Inr S"
  shows "set S = set ks" and "distinct S" and "\<forall>k \<in> set S. validate m k"
  using assms by (auto simp: construct_PERIOD_Curtailment_MAX_def list_all_iff split: if_splits)

lemma construct_PERIOD_Curtailment_MAX_Inl:
  "construct_PERIOD_Curtailment_MAX m ks = Inl (ValueError ''PERIOD_Curtailment_MAX'')
     \<longleftrightarrow> (\<exists>k \<in> set ks. \<not> validate m k)"
  by (auto simp: construct_PERIOD_Curtailment_MAX_def list_all_iff)

lemma define_components_invalid_key:
  assumes "k \<in> set (PERIOD_Curtailment_MAX_data d)" and "\<not> validate m k"
  shows "define_components m d = Inl (ValueError ''PERIOD_Curtailment_MAX'')"
proof -
  from assms have "construct_PERIOD_Curtailment_MAX m (PERIOD_Curtailment_MAX_data d)
      = Inl (ValueError ''PERIOD_Curtailment_MAX'')"
    unfolding construct_PERIOD_Curtailment_MAX_Inl by blast
  then show ?thesis by (simp add: define_components_def)
qed

text \<open>
  Claim C8. The key set \<open>PERIOD_Curtailment_MAX\<close> is validated when it is built: a key
  whose period is not in \<open>PERIODS\<close> or whose energy source is not in \<open>ENERGY_SOURCES\<close>
  makes the set, and with it the whole build, fail with the framework's \<open>ValueError\<close>;
  so every key of a set that was built names a declared period and a declared energy
  source.
\<close>

theorem PERIOD_Curtailment_MAX_validated:
  "(construct_PERIOD_Curtailment_MAX m ks = Inl (ValueError ''PERIOD_Curtailment_MAX'')
      \<longleftrightarrow> (\<exists>(p, e) \<in> set ks. p \<notin> set (PERIODS m) \<or> e \<notin> set (ENERGY_SOURCES m)))
   \<and> (construct_PERIOD_Curtailment_MAX m ks = Inr S \<longrightarrow>
        set S = set ks
        \<and> (\<forall>(p, e) \<in> set S. p \<in> set (PERIODS m) \<and> e \<in> set (ENERGY_SOURCES m)))
   \<and> ((\<exists>(p, e) \<in> set (PERIOD_Curtailment_MAX_data d).
          p \<notin> set (PERIODS m) \<or> e \<notin> set (ENERGY_SOURCES m)) \<longrightarrow>
        define_components m d = Inl (ValueError ''PERIOD_Curtailment_MAX''))
   \<and> (define_components m d = Inr c \<longrightarrow>
        set (PERIOD_Curtailment_MAX c) = set (PERIOD_Curtailment_MAX_data d)
        \<and> (\<forall>(p, e) \<in> set (PERIOD_Curtailment_MAX c).
              p \<in> set (PERIODS m) \<and> e \<in> set (ENERGY_SOURCES m)))"
proof (intro conjI impI)
  show "construct_PERIOD_Curtailment_MAX m ks = Inl (ValueError ''PERIOD_Curtailment_MAX'')
      \<longleftrightarrow> (\<exists>(p, e) \<in> set ks. p \<notin> set (PERIODS m) \<or> e \<notin> set (ENERGY_SOURCES m))"
    unfolding construct_PERIOD_Curtailment_MAX_Inl by (auto simp: validate_def)
next
  assume S: "construct_PERIOD_Curtailment_MAX m ks = Inr S"
  show "set S = set ks" by (rule construct_PERIOD_Curtailment_MAX_Inr(1) [OF S])
  show "\<forall>(p, e) \<in> set S. p \<in> set (PERIODS m) \<and> e \<in> set (ENERGY_SOURCES m)"
    using construct_PERIOD_Curtailment_MAX_Inr(3) [OF S] by (auto simp: validate_def)
next
  assume "\<exists>(p, e) \<in> set (PERIOD_Curtailment_MAX_data d).
          p \<notin> set (PERIODS m) \<or> e \<notin> set (ENERGY_SOURCES m)"
  then obtain k where "k \<in> set (PERIOD_Curtailment_MAX_data d)" and "\<not> validate m k"
    by (auto simp: validate_def)
  then show "define_components m d = Inl (ValueError ''PERIOD_Curtailment_MAX'')"
    by (rule define_components_invalid_key)
next
  assume c: "define_components m d = Inr c"
  note S = define_components_Inr(1) [OF c]
  show "set (PERIOD_Curtailment_MAX c) = set (PERIOD_Curtailment_MAX_data d)"
    by (rule construct_PERIOD_Curtailment_MAX_Inr(1) [OF S])
  show "\<forall>(p, e) \<in> set (PERIOD_Curtailment_MAX c).
          p \<in> set (PERIODS m) \<and> e \<in> set (ENERGY_SOURCES m)"
    using construct_PERIOD_Curtailment_MAX_Inr(3) [OF S] by (auto simp: validate_def)
qed

theorem PERIOD_Curtailment_MAX_validated_witness:
  "construct_PERIOD_Curtailment_MAX example_base [(2030, ''Solar''), (2040, ''Solar'')]
     = Inl (ValueError ''PERIOD_Curtailment_MAX'')
   \<and> construct_PERIOD_Curtailment_MAX example_base [(2030, ''Solar''), (2030, ''Wind'')]
     = Inr [(2030, ''Solar''), (2030, ''Wind'')]
   \<and> define_components example_base
       \<lparr>PERIOD_Curtailment_MAX_data = [(2030, ''Coal'')],
        max_curtailment_Rate_data = [((2030, ''Coal''), 1 / 2)]\<rparr>
     = Inl (ValueError ''PERIOD_Curtailment_MAX'')
   \<and> define_components example_base example_data = Inr example_components
   \<and> set (PERIOD_Curtailment_MAX example_components) = {(2030, ''Solar'')}
   \<and> 2030 \<in> set (PERIODS example_base)
   \<and> ''Solar'' \<in> set (ENERGY_SOURCES example_base)"
proof -
  note t1 = PERIOD_Curtailment_MAX_validated
    [of example_base "[(2030, ''Solar''), (2040, ''Solar'')]"
        "[(2030, ''Solar''), (2030, ''Wind'')]"
        "\<lparr>PERIOD_Curtailment_MAX_data = [(2030, ''Coal'')],
          max_curtailment_Rate_data = [((2030, ''Coal''), 1 / 2)]\<rparr>"
        example_components]
  note t2 = PERIOD_Curtailment_MAX_validated
    [of example_base "[(2030, ''Solar''), (2030, ''Wind'')]"
        "[(2030, ''Solar''), (2030, ''Wind'')]" example_data example_components]
  have bad: "\<exists>(p, e) \<in> set [(2030, ''Solar''), (2040::int, ''Solar'')].
      p \<notin> set (PERIODS example_base) \<or> e \<notin> set (ENERGY_SOURCES example_base)"
    by (simp add: example_base_def)
  have coal: "\<exists>(p, e) \<in> set (PERIOD_Curtailment_MAX_data
        \<lparr>PERIOD_Curtailment_MAX_data = [(2030, ''Coal'')],
         max_curtailment_Rate_data = [((2030, ''Coal''), 1 / 2)]\<rparr>).
      p \<notin> set (PERIODS example_base) \<or> e \<notin> set (ENERGY_SOURCES example_base)"
    by (simp add: example_base_def)
  have good: "construct_PERIOD_Curtailment_MAX example_base [(2030, ''Solar''), (2030, ''Wind'')]
     = Inr [(2030, ''Solar''), (2030, ''Wind'')]"
    by code_simp
  from t1 bad have 1: "construct_PERIOD_Curtailment_MAX example_base [(2030, ''Solar''), (2040, ''Solar'')]
     = Inl (ValueError ''PERIOD_Curtailment_MAX'')" by blast
  from t1 coal have 2: "define_components example_base
       \<lparr>PERIOD_Curtailment_MAX_data = [(2030, ''Coal'')],
        max_curtailment_Rate_data = [((2030, ''Coal''), 1 / 2)]\<rparr>
     = Inl (ValueError ''PERIOD_Curtailment_MAX'')" by blast
  from t2 example_built
  have 3: "set (PERIOD_Curtailment_MAX example_components) = set (PERIOD_Curtailment_MAX_data example_data)"
    and 4: "\<forall>(p, e) \<in> set (PERIOD_Curtailment_MAX example_components).
              p \<in> set (PERIODS example_base) \<and> e \<in> set (ENERGY_SOURCES example_base)"
    by blast+
  from 3 have 5: "set (PERIOD_Curtailment_MAX example_components) = {(2030, ''Solar'')}"
    by (simp add: example_data_def)
  from 4 5 have 6: "2030 \<in> set (PERIODS example_base) \<and> ''Solar'' \<in> set (ENERGY_SOURCES example_base)"
    by auto
  from 1 good 2 example_built 5 6 show ?thesis by blast
qed

subsection \<open>Keys for which no constraint is built\<close>

lemma build_fails_without_pairs:
  assumes "(p, e) \<in> set (PERIOD_Curtailment_MAX_data d)"
    and "matching_pairs m p e = [] \<or> \<not> set (matching_pairs m p e) \<subseteq> set (GEN_TPS m)"
  shows "define_components m d \<noteq> Inr c"
proof
  assume c: "define_components m d = Inr c"
  from construct_PERIOD_Curtailment_MAX_Inr(1) [OF define_components_Inr(1) [OF c]] assms(1)
  have "(p, e) \<in> set (PERIOD_Curtailment_MAX c)" by simp
  from built_matching_pairs [OF c this] assms(2) show False by auto
qed

text \<open>
  Claim C2. The claim is that \<open>define_components\<close> creates the constraint
  \<open>Curtailment_Rate[p, e]\<close> for every key \<open>(p, e)\<close> of \<open>PERIOD_Curtailment_MAX\<close>. The code
  does not: it builds no model at all when some key has no matching pair, or has a
  matching pair outside \<open>GEN_TPS\<close>, although such a key passes the validation of the key
  set. With no wind project, the key (2030, Wind) makes both sums the number 0, the rule
  returns a plain Boolean and the build ends in \<open>ValueError\<close>. With the solar project
  \<open>G1\<close> missing from \<open>GEN_TPS\<close> at timepoint 2, the sum for (2030, Solar) subscripts
  \<open>Curtailment\<close> outside its index set and the build ends in \<open>KeyError\<close>; the sibling
  constraint \<open>Dispatch_Curtailment\<close> ranges over \<open>GEN_TPS\<close> only.
\<close>

theorem Curtailment_Rate_build_fails:
  "list_all (validate example_no_wind_base) (PERIOD_Curtailment_MAX_data example_two_keys)
   \<and> matching_pairs example_no_wind_base 2030 ''Wind'' = []
   \<and> define_components example_no_wind_base example_two_keys
       = Inl (ValueError ''Curtailment_Rate'')
   \<and> list_all (validate example_gap_base) (PERIOD_Curtailment_MAX_data example_data)
   \<and> matching_pairs example_gap_base 2030 ''Solar'' = [(''G1'', 1), (''G1'', 2)]
   \<and> (''G1'', 2) \<notin> set (GEN_TPS example_gap_base)
   \<and> define_components example_gap_base example_data = Inl (KeyError ''Curtailment'')"
proof -
  have "list_all (validate example_no_wind_base) (PERIOD_Curtailment_MAX_data example_two_keys)"
    by code_simp
  moreover have "matching_pairs example_no_wind_base 2030 ''Wind'' = []"
    by code_simp
  moreover have "define_components example_no_wind_base example_two_keys
      = Inl (ValueError ''Curtailment_Rate'')"
    by code_simp
  moreover have "list_all (validate example_gap_base) (PERIOD_Curtailment_MAX_data example_data)"
    by code_simp
  moreover have "matching_pairs example_gap_base 2030 ''Solar'' = [(''G1'', 1), (''G1'', 2)]"
    by code_simp
  moreover have "(''G1'', 2) \<notin> set (GEN_TPS example_gap_base)"
    by (simp add: example_gap_base_def)
  moreover have "define_components example_gap_base example_data = Inl (KeyError ''Curtailment'')"
    by code_simp
  ultimately show ?thesis by blast
qed

subsection \<open>Loading the table of limits\<close>

lemma collect_list_all2:
  "collect f xs = Inr ys \<Longrightarrow> list_all2 (\<lambda>x y. f x = Inr y) xs ys"
  by (induction xs arbitrary: ys) (auto split: sum.splits)

lemma list_all2_compose:
  assumes "list_all2 P xs ys" and "list_all2 Q ys zs"
  shows "list_all2 (\<lambda>x z. \<exists>y. P x y \<and> Q y z) xs zs"
  using assms
  by (induction arbitrary: zs rule: list_all2_induct) (auto simp: list_all2_Cons1)

lemma decode_row_Inr:
  assumes "decode_row file s = Inr ((p, e), v)"
  shows "\<exists>c. s = [IntCell p, StrCell e, c] \<and> cell_number c = Some v"
  using assms by (cases "(file, s)" rule: decode_row.cases) (auto split: option.splits)

lemma select_row_three:
  assumes "select_row file [a, b, c] hdr r = Inr s"
  shows "\<exists>x y z. s = [x, y, z] \<and> map_of (zip hdr r) a = Some x
    \<and> map_of (zip hdr r) b = Some y \<and> map_of (zip hdr r) c = Some z"
  using assms by (auto simp: select_row_def split: if_splits option.splits sum.splits)

lemma select_decode_row:
  assumes "select_row file [''Period'', ''Energy_Source'', ''Max_Curtailment_Rate''] hdr r = Inr s"
    and "decode_row file s = Inr ((p, e), v)"
  shows "map_of (zip hdr r) ''Period'' = Some (IntCell p)
    \<and> map_of (zip hdr r) ''Energy_Source'' = Some (StrCell e)
    \<and> (\<exists>c. map_of (zip hdr r) ''Max_Curtailment_Rate'' = Some c \<and> cell_number c = Some v)"
proof -
  from select_row_three [OF assms(1)] obtain x y z where
    s: "s = [x, y, z]" and x: "map_of (zip hdr r) ''Period'' = Some x"
    and y: "map_of (zip hdr r) ''Energy_Source'' = Some y"
    and z: "map_of (zip hdr r) ''Max_Curtailment_Rate'' = Some z"
    by blast
  from decode_row_Inr [OF assms(2)] s have "x = IntCell p" "y = StrCell e" "cell_number z = Some v"
    by auto
  with x y z show ?thesis by simp
qed

lemma load_inputs_missing:
  assumes "fs (path_join inputs_dir ''curtailment_rate_max.tab'') = None"
  shows "load_inputs fs inputs_dir = Inl (IOError (path_join inputs_dir ''curtailment_rate_max.tab''))"
  using assms by (simp add: load_inputs_def load_aug_def)

lemma load_inputs_one_file:
  assumes "fs' (path_join inputs_dir ''curtailment_rate_max.tab'')
    = fs (path_join inputs_dir ''curtailment_rate_max.tab'')"
  shows "load_inputs fs' inputs_dir = load_inputs fs inputs_dir"
  using assms by (simp add: load_inputs_def load_aug_def)

lemma load_inputs_Inr:
  assumes "load_inputs fs inputs_dir = Inr d"
  shows "\<exists>tab. fs (path_join inputs_dir ''curtailment_rate_max.tab'') = Some tab
    \<and> PERIOD_Curtailment_MAX_data d = map fst (max_curtailment_Rate_data d)
    \<and> list_all2
        (\<lambda>r ((p, e), v).
           map_of (zip (header tab) r) ''Period'' = Some (IntCell p)
           \<and> map_of (zip (header tab) r) ''Energy_Source'' = Some (StrCell e)
           \<and> (\<exists>c. map_of (zip (header tab) r) ''Max_Curtailment_Rate'' = Some c
                  \<and> cell_number c = Some v))
        (rows tab) (max_curtailment_Rate_data d)"
proof -
  let ?file = "path_join inputs_dir ''curtailment_rate_max.tab''"
  let ?names = "[''Period'', ''Energy_Source'', ''Max_Curtailment_Rate'']"
  from assms obtain tab sel kvs where
    tab: "fs ?file = Some tab"
    and sel: "collect (select_row ?file ?names (header tab)) (rows tab) = Inr sel"
    and kvs: "collect (decode_row ?file) sel = Inr kvs"
    and d: "d = \<lparr>PERIOD_Curtailment_MAX_data = map fst kvs, max_curtailment_Rate_data = kvs\<rparr>"
    by (auto simp: load_inputs_def load_aug_def split: option.splits sum.splits)
  from list_all2_compose [OF collect_list_all2 [OF sel] collect_list_all2 [OF kvs]]
  have "list_all2 (\<lambda>r kv. \<exists>s. select_row ?file ?names (header tab) r = Inr s
      \<and> decode_row ?file s = Inr kv) (rows tab) kvs" .
  then have "list_all2
        (\<lambda>r ((p, e), v).
           map_of (zip (header tab) r) ''Period'' = Some (IntCell p)
           \<and> map_of (zip (header tab) r) ''Energy_Source'' = Some (StrCell e)
           \<and> (\<exists>c. map_of (zip (header tab) r) ''Max_Curtailment_Rate'' = Some c
                  \<and> cell_number c = Some v))
        (rows tab) kvs"
    by (rule list_all2_mono) (auto dest: select_decode_row)
  with tab d show ?thesis by simp
qed

lemma create_instance_missing:
  assumes "fs (path_join inputs_dir ''curtailment_rate_max.tab'') = None"
  shows "create_instance m fs inputs_dir
    = Inl (IOError (path_join inputs_dir ''curtailment_rate_max.tab''))"
  using assms load_inputs_missing [of fs inputs_dir] by (simp add: create_instance_def)

lemma example_loaded: "load_inputs example_fs ''inputs'' = Inr example_data"
  by code_simp

text \<open>
  Claim C4. \<open>load_inputs\<close> reads one file, \<open>curtailment_rate_max.tab\<close> in the inputs
  directory, and nothing else of the file system. The members of
  \<open>PERIOD_Curtailment_MAX\<close> and the values of \<open>max_curtailment_Rate\<close> are taken, row by
  row, from the columns \<open>Period\<close>, \<open>Energy_Source\<close> and \<open>Max_Curtailment_Rate\<close>.
  The file is mandatory: when it is absent the load ends with an error, no data are
  substituted, and no component is built.
\<close>

theorem load_inputs_mandatory_file:
  "(fs (path_join inputs_dir ''curtailment_rate_max.tab'') = None \<longrightarrow>
      load_inputs fs inputs_dir
        = Inl (IOError (path_join inputs_dir ''curtailment_rate_max.tab''))
      \<and> create_instance m fs inputs_dir
        = Inl (IOError (path_join inputs_dir ''curtailment_rate_max.tab'')))
   \<and> (fs' (path_join inputs_dir ''curtailment_rate_max.tab'')
        = fs (path_join inputs_dir ''curtailment_rate_max.tab'') \<longrightarrow>
      load_inputs fs' inputs_dir = load_inputs fs inputs_dir)
   \<and> (load_inputs fs inputs_dir = Inr d \<longrightarrow>
      (\<exists>tab. fs (path_join inputs_dir ''curtailment_rate_max.tab'') = Some tab
        \<and> PERIOD_Curtailment_MAX_data d = map fst (max_curtailment_Rate_data d)
        \<and> list_all2
            (\<lambda>r ((p, e), v).
               map_of (zip (header tab) r) ''Period'' = Some (IntCell p)
               \<and> map_of (zip (header tab) r) ''Energy_Source'' = Some (StrCell e)
               \<and> (\<exists>c. map_of (zip (header tab) r) ''Max_Curtailment_Rate'' = Some c
                      \<and> cell_number c = Some v))
            (rows tab) (max_curtailment_Rate_data d)))"
proof (intro conjI impI)
  assume none: "fs (path_join inputs_dir ''curtailment_rate_max.tab'') = None"
  from none show "load_inputs fs inputs_dir
      = Inl (IOError (path_join inputs_dir ''curtailment_rate_max.tab''))"
    by (rule load_inputs_missing)
  from none show "create_instance m fs inputs_dir
      = Inl (IOError (path_join inputs_dir ''curtailment_rate_max.tab''))"
    by (rule create_instance_missing)
next
  assume "fs' (path_join inputs_dir ''curtailment_rate_max.tab'')
        = fs (path_join inputs_dir ''curtailment_rate_max.tab'')"
  then show "load_inputs fs' inputs_dir = load_inputs fs inputs_dir"
    by (rule load_inputs_one_file)
next
  assume "load_inputs fs inputs_dir = Inr d"
  then show "\<exists>tab. fs (path_join inputs_dir ''curtailment_rate_max.tab'') = Some tab
        \<and> PERIOD_Curtailment_MAX_data d = map fst (max_curtailment_Rate_data d)
        \<and> list_all2
            (\<lambda>r ((p, e), v).
               map_of (zip (header tab) r) ''Period'' = Some (IntCell p)
               \<and> map_of (zip (header tab) r) ''Energy_Source'' = Some (StrCell e)
               \<and> (\<exists>c. map_of (zip (header tab) r) ''Max_Curtailment_Rate'' = Some c
                      \<and> cell_number c = Some v))
            (rows tab) (max_curtailment_Rate_data d)"
    by (rule load_inputs_Inr)
qed

theorem load_inputs_mandatory_file_witness:
  "load_inputs Map.empty ''inputs'' = Inl (IOError ''inputs/curtailment_rate_max.tab'')
   \<and> create_instance example_base Map.empty ''inputs''
       = Inl (IOError ''inputs/curtailment_rate_max.tab'')
   \<and> load_inputs (example_fs(''inputs/other.tab'' \<mapsto> example_table)) ''inputs''
       = load_inputs example_fs ''inputs''
   \<and> load_inputs example_fs ''inputs'' = Inr example_data
   \<and> example_fs ''inputs/curtailment_rate_max.tab'' = Some example_table
   \<and> PERIOD_Curtailment_MAX_data example_data = map fst (max_curtailment_Rate_data example_data)"
proof -
  have path: "path_join ''inputs'' ''curtailment_rate_max.tab'' = ''inputs/curtailment_rate_max.tab''"
    by (simp add: path_join_def)
  note t1 = load_inputs_mandatory_file
    [of Map.empty "''inputs''" example_base Map.empty example_data, unfolded path]
  note t2 = load_inputs_mandatory_file
    [of example_fs "''inputs''" example_base
        "example_fs(''inputs/other.tab'' \<mapsto> example_table)" example_data, unfolded path]
  have same: "(example_fs(''inputs/other.tab'' \<mapsto> example_table)) ''inputs/curtailment_rate_max.tab''
      = example_fs ''inputs/curtailment_rate_max.tab''"
    by simp
  have there: "example_fs ''inputs/curtailment_rate_max.tab'' = Some example_table"
    by (simp add: example_fs_def)
  from t1 have 1: "load_inputs Map.empty ''inputs'' = Inl (IOError ''inputs/curtailment_rate_max.tab'')
      \<and> create_instance example_base Map.empty ''inputs''
          = Inl (IOError ''inputs/curtailment_rate_max.tab'')"
    by simp
  from t2 same have 2: "load_inputs (example_fs(''inputs/other.tab'' \<mapsto> example_table)) ''inputs''
       = load_inputs example_fs ''inputs''"
    by blast
  from t2 example_loaded
  have 3: "PERIOD_Curtailment_MAX_data example_data = map fst (max_curtailment_Rate_data example_data)"
    by blast
  from 1 2 3 example_loaded there show ?thesis by blast
qed

subsection \<open>Reading max_curtailment_Rate back\<close>

lemma construct_max_curtailment_Rate_Inr:
  assumes "construct_max_curtailment_Rate ix vs = Inr P"
  shows "P = \<lparr>param_index = ix, param_values = rev vs, param_default = 1\<rparr>"
    and "\<forall>(k, v) \<in> set vs. k \<in> set ix \<and> 0 \<le> v"
  using assms by (auto simp: construct_max_curtailment_Rate_def list_all_iff split: if_splits)

lemma map_of_rev_last:
  assumes "k \<notin> fst ` set ys"
  shows "map_of (rev (xs @ (k, r) # ys)) k = Some r"
proof -
  from assms have "map_of (rev ys) k = None"
    by (simp add: map_of_eq_None_iff)
  then show ?thesis by (simp add: map_add_def)
qed

lemma loaded_param:
  assumes "load_inputs fs inputs_dir = Inr d" and "define_components m d = Inr c"
  shows "set (PERIOD_Curtailment_MAX c) = fst ` set (max_curtailment_Rate_data d)"
    and "max_curtailment_Rate c = \<lparr>param_index = PERIOD_Curtailment_MAX c,
           param_values = rev (max_curtailment_Rate_data d), param_default = 1\<rparr>"
proof -
  from load_inputs_Inr [OF assms(1)]
  have keys: "PERIOD_Curtailment_MAX_data d = map fst (max_curtailment_Rate_data d)" by blast
  from construct_PERIOD_Curtailment_MAX_Inr(1) [OF define_components_Inr(1) [OF assms(2)]] keys
  show "set (PERIOD_Curtailment_MAX c) = fst ` set (max_curtailment_Rate_data d)" by simp
  show "max_curtailment_Rate c = \<lparr>param_index = PERIOD_Curtailment_MAX c,
           param_values = rev (max_curtailment_Rate_data d), param_default = 1\<rparr>"
    by (rule construct_max_curtailment_Rate_Inr(1) [OF define_components_Inr(2) [OF assms(2)]])
qed

lemma curtailment_within_ceiling:
  assumes "define_components m d = Inr c" and "feasible c sol"
    and "\<forall>(g, t) \<in> set (GEN_TPS m). 0 \<le> sol DispatchGen g t"
    and "\<forall>(g, t) \<in> set xs. 0 \<le> tp_weight m t"
    and "set xs \<subseteq> set (GEN_TPS m)"
  shows "(\<Sum>(g, t)\<leftarrow>xs. sol Curtailment g t * tp_weight m t)
    \<le> (\<Sum>(g, t)\<leftarrow>xs. sol DispatchUpperLimit g t * tp_weight m t)"
proof (rule sum_list_mono)
  fix x
  assume x: "x \<in> set xs"
  obtain g t where gt: "x = (g, t)" by (cases x)
  from x gt assms(5) have mem: "(g, t) \<in> set (GEN_TPS m)" by auto
  from assms(3) mem have "0 \<le> sol DispatchGen g t" by auto
  with feasible_Dispatch_Curtailment [OF assms(1,2) mem]
  have "sol Curtailment g t \<le> sol DispatchUpperLimit g t" by linarith
  moreover from assms(4) x gt have "0 \<le> tp_weight m t" by auto
  ultimately have "sol Curtailment g t * tp_weight m t \<le> sol DispatchUpperLimit g t * tp_weight m t"
    by (rule mult_right_mono)
  with gt show "(case x of (g, t) \<Rightarrow> sol Curtailment g t * tp_weight m t)
      \<le> (case x of (g, t) \<Rightarrow> sol DispatchUpperLimit g t * tp_weight m t)"
    by simp
qed

lemma example_dup_loaded: "load_inputs example_dup_fs ''inputs'' = Inr example_dup_data"
  by code_simp

lemma example_dup_built:
  "define_components example_base example_dup_data = Inr example_dup_components"
  by code_simp

text \<open>
  Claim C3, as stated, fails in two places. With the single row (2030, Solar, 0.2) in the
  file, the parameter reads 0.2 at (2030, Solar), but at the unlisted key (2030, Wind) the
  subscript raises \<open>KeyError\<close> and does not yield the default 1: the parameter is indexed
  by the key set, and the key set holds the keys of the file only. And with the rows
  (2030, Solar, 0.3) and (2030, Solar, 0.4) in the file, the key (2030, Solar) appears
  as a row with 0.3 and reads back 0.4.
\<close>

theorem max_curtailment_Rate_unlisted_counterexample:
  "load_inputs example_fs ''inputs'' = Inr example_data
   \<and> define_components example_base example_data = Inr example_components
   \<and> param_getitem (max_curtailment_Rate example_components) (2030, ''Solar'') = Inr (1 / 5)
   \<and> param_getitem (max_curtailment_Rate example_components) (2030, ''Wind'')
       = Inl (KeyError ''max_curtailment_Rate'')
   \<and> param_getitem (max_curtailment_Rate example_components) (2030, ''Wind'') \<noteq> Inr 1
   \<and> load_inputs example_dup_fs ''inputs'' = Inr example_dup_data
   \<and> define_components example_base example_dup_data = Inr example_dup_components
   \<and> ((2030, ''Solar''), 3 / 10) \<in> set (max_curtailment_Rate_data example_dup_data)
   \<and> param_getitem (max_curtailment_Rate example_dup_components) (2030, ''Solar'') = Inr (2 / 5)
   \<and> param_getitem (max_curtailment_Rate example_dup_components) (2030, ''Solar'')
       \<noteq> Inr (3 / 10)"
proof -
  have "param_getitem (max_curtailment_Rate example_components) (2030, ''Solar'') = Inr (1 / 5)"
    by (simp add: example_components_def param_getitem_def)
  moreover have "param_getitem (max_curtailment_Rate example_components) (2030, ''Wind'')
       = Inl (KeyError ''max_curtailment_Rate'')"
    by (simp add: example_components_def param_getitem_def)
  moreover have "((2030, ''Solar''), 3 / 10) \<in> set (max_curtailment_Rate_data example_dup_data)"
    by (simp add: example_dup_data_def)
  moreover have "param_getitem (max_curtailment_Rate example_dup_components) (2030, ''Solar'')
      = Inr (2 / 5)"
    by (simp add: example_dup_components_def param_getitem_def)
  ultimately show ?thesis
    using example_loaded example_built example_dup_loaded example_dup_built by simp
qed

text \<open>
  Claim C3, amended. After \<open>load_inputs\<close> has read the file and the components are built
  from it, reading \<open>max_curtailment_Rate\<close> at a key \<open>(p, e)\<close> yields \<open>r\<close> when \<open>(p, e, r)\<close>
  is the last row of the file with that key; so a key that one row gives reads back the
  value of that row. A pair that no row of the file gives is not a member of
  \<open>PERIOD_Curtailment_MAX\<close>: reading the parameter there raises \<open>KeyError\<close>, and no
  constraint \<open>Curtailment_Rate\<close> limits the pair. The default of the parameter is 1, and
  the bound that a limit of 1 states holds for every pair, in the file or not: in a
  feasible solution with non-negative dispatch, the weighted curtailment of those of its
  (project, timepoint) pairs that are in \<open>GEN_TPS\<close>, their weights being non-negative, is
  at most 1 times their weighted dispatch ceiling.
\<close>

theorem max_curtailment_Rate_after_load:
  assumes "load_inputs fs inputs_dir = Inr d" and "define_components m d = Inr c"
  shows "(max_curtailment_Rate_data d = xs @ ((p, e), r) # ys \<and> (p, e) \<notin> fst ` set ys \<longrightarrow>
        param_getitem (max_curtailment_Rate c) (p, e) = Inr r)
    \<and> ((p, e) \<notin> fst ` set (max_curtailment_Rate_data d) \<longrightarrow>
        (p, e) \<notin> set (PERIOD_Curtailment_MAX c)
        \<and> param_getitem (max_curtailment_Rate c) (p, e) = Inl (KeyError ''max_curtailment_Rate'')
        \<and> map_of (Curtailment_Rate c) (p, e) = None)
    \<and> param_default (max_curtailment_Rate c) = 1
    \<and> (feasible c sol
        \<and> (\<forall>(g, t) \<in> set (GEN_TPS m). 0 \<le> sol DispatchGen g t)
        \<and> (\<forall>(g, t) \<in> set (filter (\<lambda>gt. gt \<in> set (GEN_TPS m)) (matching_pairs m p e)).
              0 \<le> tp_weight m t) \<longrightarrow>
        (\<Sum>(g, t)\<leftarrow>filter (\<lambda>gt. gt \<in> set (GEN_TPS m)) (matching_pairs m p e).
            sol Curtailment g t * tp_weight m t)
          \<le> 1 * (\<Sum>(g, t)\<leftarrow>filter (\<lambda>gt. gt \<in> set (GEN_TPS m)) (matching_pairs m p e).
                    sol DispatchUpperLimit g t * tp_weight m t))"
proof (intro conjI impI)
  note keys = loaded_param(1) [OF assms]
  note P = loaded_param(2) [OF assms]
  {
    assume "max_curtailment_Rate_data d = xs @ ((p, e), r) # ys \<and> (p, e) \<notin> fst ` set ys"
    then have rows: "max_curtailment_Rate_data d = xs @ ((p, e), r) # ys"
      and last: "(p, e) \<notin> fst ` set ys" by simp_all
    from rows keys have "(p, e) \<in> set (PERIOD_Curtailment_MAX c)" by simp
    moreover from map_of_rev_last [OF last, of xs r] rows
    have "map_of (rev (max_curtailment_Rate_data d)) (p, e) = Some r" by simp
    ultimately show "param_getitem (max_curtailment_Rate c) (p, e) = Inr r"
      by (simp add: param_getitem_def P)
  }
  {
    assume "(p, e) \<notin> fst ` set (max_curtailment_Rate_data d)"
    with keys show out: "(p, e) \<notin> set (PERIOD_Curtailment_MAX c)" by simp
    then show "param_getitem (max_curtailment_Rate c) (p, e) = Inl (KeyError ''max_curtailment_Rate'')"
      by (simp add: param_getitem_def P)
    from construct_indexed_keys [OF define_components_Inr(5) [OF assms(2)]]
    have "fst ` set (Curtailment_Rate c) = set (PERIOD_Curtailment_MAX c)"
      by (simp add: set_map [symmetric] del: set_map)
    with out show "map_of (Curtailment_Rate c) (p, e) = None"
      by (simp add: map_of_eq_None_iff)
  }
  show "param_default (max_curtailment_Rate c) = 1" by (simp add: P)
  {
    let ?xs = "filter (\<lambda>gt. gt \<in> set (GEN_TPS m)) (matching_pairs m p e)"
    assume h: "feasible c sol
        \<and> (\<forall>(g, t) \<in> set (GEN_TPS m). 0 \<le> sol DispatchGen g t)
        \<and> (\<forall>(g, t) \<in> set ?xs. 0 \<le> tp_weight m t)"
    have "set ?xs \<subseteq> set (GEN_TPS m)" by auto
    with h have "(\<Sum>(g, t)\<leftarrow>?xs. sol Curtailment g t * tp_weight m t)
        \<le> (\<Sum>(g, t)\<leftarrow>?xs. sol DispatchUpperLimit g t * tp_weight m t)"
      by (intro curtailment_within_ceiling [OF assms(2)]) simp_all
    then show "(\<Sum>(g, t)\<leftarrow>?xs. sol Curtailment g t * tp_weight m t)
          \<le> 1 * (\<Sum>(g, t)\<leftarrow>?xs. sol DispatchUpperLimit g t * tp_weight m t)"
      by simp
  }
qed

theorem max_curtailment_Rate_after_load_witness:
  "load_inputs example_fs ''inputs'' = Inr example_data
   \<and> define_components example_base example_data = Inr example_components
   \<and> max_curtailment_Rate_data example_data = [] @ ((2030, ''Solar''), 1 / 5) # []
   \<and> (2030, ''Solar'') \<notin> fst ` set ([] :: (limit_key \<times> real) list)
   \<and> param_getitem (max_curtailment_Rate example_components) (2030, ''Solar'') = Inr (1 / 5)
   \<and> (2030, ''Wind'') \<notin> fst ` set (max_curtailment_Rate_data example_data)
   \<and> (2030, ''Wind'') \<notin> set (PERIOD_Curtailment_MAX example_components)
   \<and> param_getitem (max_curtailment_Rate example_components) (2030, ''Wind'')
       = Inl (KeyError ''max_curtailment_Rate'')
   \<and> map_of (Curtailment_Rate example_components) (2030, ''Wind'') = None
   \<and> param_default (max_curtailment_Rate example_components) = 1
   \<and> feasible example_components example_solution
   \<and> filter (\<lambda>gt. gt \<in> set (GEN_TPS example_base)) (matching_pairs example_base 2030 ''Wind'')
       = [(''G2'', 1), (''G2'', 2)]
   \<and> example_solution Curtailment ''G2'' 1 * 10 + example_solution Curtailment ''G2'' 2 * 10
       \<le> 1 * (example_solution DispatchUpperLimit ''G2'' 1 * 10
               + example_solution DispatchUpperLimit ''G2'' 2 * 10)
   \<and> load_inputs example_dup_fs ''inputs'' = Inr example_dup_data
   \<and> define_components example_base example_dup_data = Inr example_dup_components
   \<and> max_curtailment_Rate_data example_dup_data
       = [((2030, ''Solar''), 3 / 10)] @ ((2030, ''Solar''), 2 / 5) # []
   \<and> param_getitem (max_curtailment_Rate example_dup_components) (2030, ''Solar'') = Inr (2 / 5)"
proof -
  note t1 = max_curtailment_Rate_after_load
    [OF example_loaded example_built, of "[]" 2030 "''Solar''" "1 / 5" "[]" example_solution]
  note t2 = max_curtailment_Rate_after_load
    [OF example_loaded example_built, of "[]" 2030 "''Wind''" 1 "[]" example_solution]
  note t3 = max_curtailment_Rate_after_load
    [OF example_dup_loaded example_dup_built,
     of "[((2030, ''Solar''), 3 / 10)]" 2030 "''Solar''" "2 / 5" "[]" example_solution]
  have rows: "max_curtailment_Rate_data example_data = [] @ ((2030, ''Solar''), 1 / 5) # []"
    by (simp add: example_data_def)
  have last: "(2030, ''Solar'') \<notin> fst ` set ([] :: (limit_key \<times> real) list)"
    by simp
  have dup_rows: "max_curtailment_Rate_data example_dup_data
       = [((2030, ''Solar''), 3 / 10)] @ ((2030, ''Solar''), 2 / 5) # []"
    by (simp add: example_dup_data_def)
  have unlisted: "(2030, ''Wind'') \<notin> fst ` set (max_curtailment_Rate_data example_data)"
    by (simp add: example_data_def)
  have pairs: "filter (\<lambda>gt. gt \<in> set (GEN_TPS example_base))
        (matching_pairs example_base 2030 ''Wind'') = [(''G2'', 1), (''G2'', 2)]"
    by code_simp
  have w: "tp_weight example_base = (\<lambda>t. 10)"
    by (simp add: example_base_def)
  have nonneg: "\<forall>(g, t) \<in> set (GEN_TPS example_base). 0 \<le> example_solution DispatchGen g t"
    by (simp add: example_solution_def)
  have weights: "\<forall>(g, t) \<in> set (filter (\<lambda>gt. gt \<in> set (GEN_TPS example_base))
        (matching_pairs example_base 2030 ''Wind'')). 0 \<le> tp_weight example_base t"
    by (simp add: w)
  from t1 rows last
  have 1: "param_getitem (max_curtailment_Rate example_components) (2030, ''Solar'') = Inr (1 / 5)"
    by blast
  from t2 unlisted
  have 2: "(2030, ''Wind'') \<notin> set (PERIOD_Curtailment_MAX example_components)
      \<and> param_getitem (max_curtailment_Rate example_components) (2030, ''Wind'')
          = Inl (KeyError ''max_curtailment_Rate'')
      \<and> map_of (Curtailment_Rate example_components) (2030, ''Wind'') = None"
    by blast
  from t2 have 3: "param_default (max_curtailment_Rate example_components) = 1" by blast
  from t2 example_feasible nonneg weights
  have "(\<Sum>(g, t)\<leftarrow>filter (\<lambda>gt. gt \<in> set (GEN_TPS example_base))
                      (matching_pairs example_base 2030 ''Wind'').
          example_solution Curtailment g t * tp_weight example_base t)
      \<le> 1 * (\<Sum>(g, t)\<leftarrow>filter (\<lambda>gt. gt \<in> set (GEN_TPS example_base))
                          (matching_pairs example_base 2030 ''Wind'').
               example_solution DispatchUpperLimit g t * tp_weight example_base t)"
    by blast
  then have 4: "example_solution Curtailment ''G2'' 1 * 10 + example_solution Curtailment ''G2'' 2 * 10
       \<le> 1 * (example_solution DispatchUpperLimit ''G2'' 1 * 10
               + example_solution DispatchUpperLimit ''G2'' 2 * 10)"
    unfolding pairs w by simp
  from t3 dup_rows last
  have 5: "param_getitem (max_curtailment_Rate example_dup_components) (2030, ''Solar'') = Inr (2 / 5)"
    by blast
  from example_loaded example_built rows last 1 unlisted 2 3 example_feasible pairs 4
    example_dup_loaded example_dup_built dup_rows 5
  show ?thesis by blast
qed

subsection \<open>The detail records of the report\<close>

lemma foldl_add_sum_list: "foldl (+) a xs = a + sum_list (xs :: real list)"
  by (induction xs arbitrary: a) simp_all

lemma py_sum_real_sum_list: "py_sum_real xs = sum_list xs"
  by (simp add: py_sum_real_def foldl_add_sum_list)

lemma detail_record_energy:
  "Energy_GWh_typical_yr_ideal (detail_record inst (g, t))
     = solved inst DispatchUpperLimit g t * tp_weight_in_year inst t / 1000"
  "Energy_GWh_typical_yr_actual (detail_record inst (g, t))
     = solved inst DispatchGen g t * tp_weight_in_year inst t / 1000"
  "VariableCost_per_yr (detail_record inst (g, t))
     = solved inst DispatchUpperLimit g t * gen_variable_om inst g * tp_weight_in_year inst t"
  by (simp_all add: detail_record_def)

lemma detail_record_emissions:
  "DispatchEmissions_tCO2_per_typical_yr (detail_record inst (g, t))
     = (if gen_uses_fuel inst g
        then Some (\<Sum>f\<leftarrow>FUELS_FOR_GEN inst g. DispatchEmissions inst g t f * tp_weight_in_year inst t)
        else None)"
  by (simp add: detail_record_def py_sum_real_sum_list)

lemma detail_record_key:
  "group_key_of (detail_record inst (g, t))
     = (gen_tech inst g, gen_energy_source inst g, tp_period inst t)"
  by (simp add: detail_record_def group_key_of_def)

lemma post_solve_Inr:
  assumes "post_solve inst outdir = Inr files"
  shows "files =
    [(path_join outdir ''dispatch.csv'', DetailCsv (dispatch_normalized_dat inst)),
     (path_join outdir ''Curtailment_energy.csv'',
      SummaryCsv (annual_summary (dispatch_normalized_dat inst)))]"
    and "GEN_TPS inst \<noteq> []"
  using assms
  by (auto simp: post_solve_def Let_def dispatch_normalized_dat_def split: if_splits)

lemma example_reported:
  "post_solve example_instance ''out'' =
     Inr [(''out/dispatch.csv'', DetailCsv (dispatch_normalized_dat example_instance)),
          (''out/Curtailment_energy.csv'',
           SummaryCsv (annual_summary (dispatch_normalized_dat example_instance)))]"
  by code_simp

text \<open>
  Claim C5. For every (project, timepoint) pair of \<open>GEN_TPS\<close> the detail record has
  ideal energy \<open>DispatchUpperLimit[g, t] * tp_weight_in_year[t] / 1000\<close>, actual energy
  \<open>DispatchGen[g, t] * tp_weight_in_year[t] / 1000\<close> and variable cost
  \<open>DispatchUpperLimit[g, t] * gen_variable_om[g] * tp_weight_in_year[t]\<close>, and these
  records are what the report writes to \<open>dispatch.csv\<close>. For a project with variable
  cost 2 at a timepoint of yearly weight 10, ceiling 100 and dispatch 80, the record has
  ideal energy 1, actual energy 0.8 and variable cost 2000.
\<close>

theorem detail_record_energy_and_cost:
  "map Energy_GWh_typical_yr_ideal (dispatch_normalized_dat inst)
     = map (\<lambda>(g, t). solved inst DispatchUpperLimit g t * tp_weight_in_year inst t / 1000)
         (GEN_TPS inst)
   \<and> map Energy_GWh_typical_yr_actual (dispatch_normalized_dat inst)
     = map (\<lambda>(g, t). solved inst DispatchGen g t * tp_weight_in_year inst t / 1000)
         (GEN_TPS inst)
   \<and> map VariableCost_per_yr (dispatch_normalized_dat inst)
     = map (\<lambda>(g, t). solved inst DispatchUpperLimit g t * gen_variable_om inst g
                       * tp_weight_in_year inst t)
         (GEN_TPS inst)
   \<and> (post_solve inst outdir = Inr files \<longrightarrow>
        (path_join outdir ''dispatch.csv'', DetailCsv (dispatch_normalized_dat inst)) \<in> set files)
   \<and> (gen_variable_om inst g = 2 \<and> tp_weight_in_year inst t = 10
        \<and> solved inst DispatchUpperLimit g t = 100 \<and> solved inst DispatchGen g t = 80 \<longrightarrow>
        Energy_GWh_typical_yr_ideal (detail_record inst (g, t)) = 1
        \<and> Energy_GWh_typical_yr_actual (detail_record inst (g, t)) = 8 / 10
        \<and> VariableCost_per_yr (detail_record inst (g, t)) = 2000)"
proof (intro conjI impI)
  show "map Energy_GWh_typical_yr_ideal (dispatch_normalized_dat inst)
     = map (\<lambda>(g, t). solved inst DispatchUpperLimit g t * tp_weight_in_year inst t / 1000)
         (GEN_TPS inst)"
    by (simp add: dispatch_normalized_dat_def detail_record_def case_prod_unfold)
  show "map Energy_GWh_typical_yr_actual (dispatch_normalized_dat inst)
     = map (\<lambda>(g, t). solved inst DispatchGen g t * tp_weight_in_year inst t / 1000)
         (GEN_TPS inst)"
    by (simp add: dispatch_normalized_dat_def detail_record_def case_prod_unfold)
  show "map VariableCost_per_yr (dispatch_normalized_dat inst)
     = map (\<lambda>(g, t). solved inst DispatchUpperLimit g t * gen_variable_om inst g
                       * tp_weight_in_year inst t)
         (GEN_TPS inst)"
    by (simp add: dispatch_normalized_dat_def detail_record_def case_prod_unfold)
next
  assume "post_solve inst outdir = Inr files"
  from post_solve_Inr(1) [OF this]
  show "(path_join outdir ''dispatch.csv'', DetailCsv (dispatch_normalized_dat inst)) \<in> set files"
    by simp
next
  assume h: "gen_variable_om inst g = 2 \<and> tp_weight_in_year inst t = 10
        \<and> solved inst DispatchUpperLimit g t = 100 \<and> solved inst DispatchGen g t = 80"
  from h show "Energy_GWh_typical_yr_ideal (detail_record inst (g, t)) = 1"
    by (simp add: detail_record_energy)
  from h show "Energy_GWh_typical_yr_actual (detail_record inst (g, t)) = 8 / 10"
    by (simp add: detail_record_energy)
  from h show "VariableCost_per_yr (detail_record inst (g, t)) = 2000"
    by (simp add: detail_record_energy)
qed

theorem detail_record_energy_and_cost_witness:
  "post_solve example_instance ''out'' =
     Inr [(''out/dispatch.csv'', DetailCsv (dispatch_normalized_dat example_instance)),
          (''out/Curtailment_energy.csv'',
           SummaryCsv (annual_summary (dispatch_normalized_dat example_instance)))]
   \<and> (''out/dispatch.csv'', DetailCsv (dispatch_normalized_dat example_instance))
       \<in> set [(''out/dispatch.csv'', DetailCsv (dispatch_normalized_dat example_instance)),
              (''out/Curtailment_energy.csv'',
               SummaryCsv (annual_summary (dispatch_normalized_dat example_instance)))]
   \<and> gen_variable_om example_instance ''G1'' = 2
   \<and> tp_weight_in_year example_instance 1 = 10
   \<and> solved example_instance DispatchUpperLimit ''G1'' 1 = 100
   \<and> solved example_instance DispatchGen ''G1'' 1 = 80
   \<and> Energy_GWh_typical_yr_ideal (detail_record example_instance (''G1'', 1)) = 1
   \<and> Energy_GWh_typical_yr_actual (detail_record example_instance (''G1'', 1)) = 8 / 10
   \<and> VariableCost_per_yr (detail_record example_instance (''G1'', 1)) = 2000
   \<and> map Energy_GWh_typical_yr_ideal (dispatch_normalized_dat example_instance) = [1, 1, 1, 1, 1]"
proof -
  have path: "path_join ''out'' ''dispatch.csv'' = ''out/dispatch.csv''"
    by (simp add: path_join_def)
  note t = detail_record_energy_and_cost
    [of example_instance "''out''"
        "[(''out/dispatch.csv'', DetailCsv (dispatch_normalized_dat example_instance)),
          (''out/Curtailment_energy.csv'',
           SummaryCsv (annual_summary (dispatch_normalized_dat example_instance)))]"
        "''G1''" 1, unfolded path]
  have h: "gen_variable_om example_instance ''G1'' = 2
      \<and> tp_weight_in_year example_instance 1 = 10
      \<and> solved example_instance DispatchUpperLimit ''G1'' 1 = 100
      \<and> solved example_instance DispatchGen ''G1'' 1 = 80"
    by (simp add: example_instance_def)
  from t h have 1: "Energy_GWh_typical_yr_ideal (detail_record example_instance (''G1'', 1)) = 1
      \<and> Energy_GWh_typical_yr_actual (detail_record example_instance (''G1'', 1)) = 8 / 10
      \<and> VariableCost_per_yr (detail_record example_instance (''G1'', 1)) = 2000"
    by blast
  from t example_reported
  have 2: "(''out/dispatch.csv'', DetailCsv (dispatch_normalized_dat example_instance))
       \<in> set [(''out/dispatch.csv'', DetailCsv (dispatch_normalized_dat example_instance)),
              (''out/Curtailment_energy.csv'',
               SummaryCsv (annual_summary (dispatch_normalized_dat example_instance)))]"
    by blast
  from t have "map Energy_GWh_typical_yr_ideal (dispatch_normalized_dat example_instance)
     = map (\<lambda>(g, t). solved example_instance DispatchUpperLimit g t
                       * tp_weight_in_year example_instance t / 1000)
         (GEN_TPS example_instance)"
    by blast
  then have 3: "map Energy_GWh_typical_yr_ideal (dispatch_normalized_dat example_instance)
      = [1, 1, 1, 1, 1]"
    by (simp add: example_instance_def)
  from example_reported 2 h 1 3 show ?thesis by blast
qed

text \<open>
  Claim C7. For every (project, timepoint) pair of \<open>GEN_TPS\<close> the emissions field of the
  detail record is the sum, over the fuels \<open>f\<close> of \<open>FUELS_FOR_GEN[g]\<close>, of
  \<open>DispatchEmissions[g, t, f] * tp_weight_in_year[t]\<close> when the project uses fuel, and is
  null when it does not.
\<close>

theorem detail_record_emissions_field:
  "map DispatchEmissions_tCO2_per_typical_yr (dispatch_normalized_dat inst)
     = map (\<lambda>(g, t).
              if gen_uses_fuel inst g
              then Some (\<Sum>f\<leftarrow>FUELS_FOR_GEN inst g.
                           DispatchEmissions inst g t f * tp_weight_in_year inst t)
              else None)
         (GEN_TPS inst)"
  by (simp add: dispatch_normalized_dat_def detail_record_def py_sum_real_sum_list
      case_prod_unfold)

theorem detail_record_emissions_field_witness:
  "map DispatchEmissions_tCO2_per_typical_yr (dispatch_normalized_dat example_instance)
     = [None, None, Some 40, None, None]"
proof -
  have "map DispatchEmissions_tCO2_per_typical_yr (dispatch_normalized_dat example_instance)
     = map (\<lambda>(g, t).
              if gen_uses_fuel example_instance g
              then Some (\<Sum>f\<leftarrow>FUELS_FOR_GEN example_instance g.
                           DispatchEmissions example_instance g t f
                             * tp_weight_in_year example_instance t)
              else None)
         (GEN_TPS example_instance)"
    by (rule detail_record_emissions_field)
  then show ?thesis by (simp add: example_instance_def)
qed

subsection \<open>The summary by technology, energy source and period\<close>

lemma annual_summary_keys:
  "map fst (annual_summary df) = sort (remdups (map group_key_of df))"
  by (simp add: annual_summary_def comp_def)

lemma annual_summary_key_set:
  "set (map fst (annual_summary df)) = group_key_of ` set df"
  by (simp only: annual_summary_keys set_sort set_remdups set_map)

lemma annual_summary_distinct: "distinct (map fst (annual_summary df))"
  by (simp only: annual_summary_keys distinct_sort distinct_remdups)

lemma annual_summary_sorted: "sorted (map fst (annual_summary df))"
  by (simp only: annual_summary_keys sorted_sort)

lemma annual_summary_lookup:
  assumes "k \<in> group_key_of ` set df"
  shows "map_of (annual_summary df) k = Some (group_sum (filter (\<lambda>r. group_key_of r = k) df))"
  using assms by (simp add: annual_summary_def map_of_map_restrict restrict_map_def)

lemma annual_summary_rows:
  assumes "r1 \<in> set df" and "r2 \<in> set df"
  shows "\<exists>i < length (annual_summary df). \<exists>j < length (annual_summary df).
      fst (annual_summary df ! i) = group_key_of r1
      \<and> fst (annual_summary df ! j) = group_key_of r2
      \<and> (i = j \<longleftrightarrow> group_key_of r1 = group_key_of r2)"
proof -
  let ?ks = "map fst (annual_summary df)"
  from assms have "group_key_of r1 \<in> set ?ks" and "group_key_of r2 \<in> set ?ks"
    by (simp_all only: annual_summary_key_set imageI)
  then obtain i j where i: "i < length ?ks" "?ks ! i = group_key_of r1"
    and j: "j < length ?ks" "?ks ! j = group_key_of r2"
    by (auto simp: in_set_conv_nth)
  from annual_summary_distinct [of df] i(1) j(1)
  have "?ks ! i = ?ks ! j \<longleftrightarrow> i = j"
    by (rule nth_eq_iff_index_eq)
  with i(2) j(2) have "i = j \<longleftrightarrow> group_key_of r1 = group_key_of r2"
    by auto
  with i j show ?thesis by auto
qed

lemma sum_skipna_sum_list:
  "sum_skipna xs = (\<Sum>x\<leftarrow>xs. case x of None \<Rightarrow> 0 | Some v \<Rightarrow> v)"
  by (induction xs rule: sum_skipna.induct) simp_all

lemma group_sum_emissions:
  "sum_DispatchEmissions_tCO2_per_typical_yr (group_sum rs)
     = (\<Sum>r\<leftarrow>rs. case DispatchEmissions_tCO2_per_typical_yr r of None \<Rightarrow> 0 | Some v \<Rightarrow> v)"
  by (simp add: group_sum_def sum_skipna_sum_list comp_def)

lemma dispatch_normalized_dat_keys:
  "map group_key_of (dispatch_normalized_dat inst)
     = map (\<lambda>(g, t). (gen_tech inst g, gen_energy_source inst g, tp_period inst t)) (GEN_TPS inst)"
  by (simp add: dispatch_normalized_dat_def detail_record_def group_key_of_def case_prod_unfold)

text \<open>
  Claim C6. The report groups the detail records by technology, energy source and
  period, sums the numeric columns within each group, and writes the result, with its
  four summed columns, to \<open>Curtailment_energy.csv\<close>: ideal energy, actual energy,
  variable cost and emissions, a null emissions value adding nothing to its sum. Every
  key has one row, which holds the sums over all records with that key: two records
  with the same three keys are summed into the same row, and two records that differ in
  a key are in different rows.
\<close>

theorem annual_summary_by_group:
  assumes "post_solve inst outdir = Inr files"
  shows "(path_join outdir ''Curtailment_energy.csv'',
          SummaryCsv (annual_summary (dispatch_normalized_dat inst))) \<in> set files
    \<and> map group_key_of (dispatch_normalized_dat inst)
        = map (\<lambda>(g, t). (gen_tech inst g, gen_energy_source inst g, tp_period inst t))
            (GEN_TPS inst)
    \<and> distinct (map fst (annual_summary (dispatch_normalized_dat inst)))
    \<and> sorted (map fst (annual_summary (dispatch_normalized_dat inst)))
    \<and> set (map fst (annual_summary (dispatch_normalized_dat inst)))
        = group_key_of ` set (dispatch_normalized_dat inst)
    \<and> (\<forall>k \<in> group_key_of ` set (dispatch_normalized_dat inst).
          \<exists>s. map_of (annual_summary (dispatch_normalized_dat inst)) k = Some s
            \<and> sum_Energy_GWh_typical_yr_ideal s
                = (\<Sum>r\<leftarrow>filter (\<lambda>r. group_key_of r = k) (dispatch_normalized_dat inst).
                     Energy_GWh_typical_yr_ideal r)
            \<and> sum_Energy_GWh_typical_yr_actual s
                = (\<Sum>r\<leftarrow>filter (\<lambda>r. group_key_of r = k) (dispatch_normalized_dat inst).
                     Energy_GWh_typical_yr_actual r)
            \<and> sum_VariableCost_per_yr s
                = (\<Sum>r\<leftarrow>filter (\<lambda>r. group_key_of r = k) (dispatch_normalized_dat inst).
                     VariableCost_per_yr r)
            \<and> sum_DispatchEmissions_tCO2_per_typical_yr s
                = (\<Sum>r\<leftarrow>filter (\<lambda>r. group_key_of r = k) (dispatch_normalized_dat inst).
                     case DispatchEmissions_tCO2_per_typical_yr r of None \<Rightarrow> 0 | Some v \<Rightarrow> v))
    \<and> (\<forall>r1 \<in> set (dispatch_normalized_dat inst). \<forall>r2 \<in> set (dispatch_normalized_dat inst).
          \<exists>i < length (annual_summary (dispatch_normalized_dat inst)).
          \<exists>j < length (annual_summary (dispatch_normalized_dat inst)).
            fst (annual_summary (dispatch_normalized_dat inst) ! i) = group_key_of r1
            \<and> fst (annual_summary (dispatch_normalized_dat inst) ! j) = group_key_of r2
            \<and> (i = j \<longleftrightarrow> group_key_of r1 = group_key_of r2))"
proof (intro conjI ballI)
  from post_solve_Inr(1) [OF assms]
  show "(path_join outdir ''Curtailment_energy.csv'',
          SummaryCsv (annual_summary (dispatch_normalized_dat inst))) \<in> set files"
    by simp
  show "map group_key_of (dispatch_normalized_dat inst)
        = map (\<lambda>(g, t). (gen_tech inst g, gen_energy_source inst g, tp_period inst t))
            (GEN_TPS inst)"
    by (rule dispatch_normalized_dat_keys)
  show "distinct (map fst (annual_summary (dispatch_normalized_dat inst)))"
    by (rule annual_summary_distinct)
  show "sorted (map fst (annual_summary (dispatch_normalized_dat inst)))"
    by (rule annual_summary_sorted)
  show "set (map fst (annual_summary (dispatch_normalized_dat inst)))
        = group_key_of ` set (dispatch_normalized_dat inst)"
    by (rule annual_summary_key_set)
next
  fix k
  assume "k \<in> group_key_of ` set (dispatch_normalized_dat inst)"
  from annual_summary_lookup [OF this]
  show "\<exists>s. map_of (annual_summary (dispatch_normalized_dat inst)) k = Some s
            \<and> sum_Energy_GWh_typical_yr_ideal s
                = (\<Sum>r\<leftarrow>filter (\<lambda>r. group_key_of r = k) (dispatch_normalized_dat inst).
                     Energy_GWh_typical_yr_ideal r)
            \<and> sum_Energy_GWh_typical_yr_actual s
                = (\<Sum>r\<leftarrow>filter (\<lambda>r. group_key_of r = k) (dispatch_normalized_dat inst).
                     Energy_GWh_typical_yr_actual r)
            \<and> sum_VariableCost_per_yr s
                = (\<Sum>r\<leftarrow>filter (\<lambda>r. group_key_of r = k) (dispatch_normalized_dat inst).
                     VariableCost_per_yr r)
            \<and> sum_DispatchEmissions_tCO2_per_typical_yr s
                = (\<Sum>r\<leftarrow>filter (\<lambda>r. group_key_of r = k) (dispatch_normalized_dat inst).
                     case DispatchEmissions_tCO2_per_typical_yr r of None \<Rightarrow> 0 | Some v \<Rightarrow> v)"
    by (simp add: group_sum_emissions) (simp add: group_sum_def)
next
  fix r1 r2
  assume "r1 \<in> set (dispatch_normalized_dat inst)" and "r2 \<in> set (dispatch_normalized_dat inst)"
  then show "\<exists>i < length (annual_summary (dispatch_normalized_dat inst)).
          \<exists>j < length (annual_summary (dispatch_normalized_dat inst)).
            fst (annual_summary (dispatch_normalized_dat inst) ! i) = group_key_of r1
            \<and> fst (annual_summary (dispatch_normalized_dat inst) ! j) = group_key_of r2
            \<and> (i = j \<longleftrightarrow> group_key_of r1 = group_key_of r2)"
    by (rule annual_summary_rows)
qed

lemma example_summary:
  "annual_summary (dispatch_normalized_dat example_instance) =
     [((''CCGT'', ''Gas'', 2030),
       \<lparr>sum_Energy_GWh_typical_yr_ideal = 2, sum_Energy_GWh_typical_yr_actual = 8 / 5,
        sum_VariableCost_per_yr = 4000, sum_DispatchEmissions_tCO2_per_typical_yr = 40\<rparr>),
      ((''PV'', ''Solar'', 2030),
       \<lparr>sum_Energy_GWh_typical_yr_ideal = 2, sum_Energy_GWh_typical_yr_actual = 8 / 5,
        sum_VariableCost_per_yr = 4000, sum_DispatchEmissions_tCO2_per_typical_yr = 0\<rparr>),
      ((''Turbine'', ''Wind'', 2030),
       \<lparr>sum_Energy_GWh_typical_yr_ideal = 1, sum_Energy_GWh_typical_yr_actual = 4 / 5,
        sum_VariableCost_per_yr = 2000, sum_DispatchEmissions_tCO2_per_typical_yr = 0\<rparr>)]"
  by code_simp

lemma example_keys:
  "map group_key_of (dispatch_normalized_dat example_instance) =
     [(''PV'', ''Solar'', 2030), (''PV'', ''Solar'', 2030), (''CCGT'', ''Gas'', 2030),
      (''CCGT'', ''Gas'', 2030), (''Turbine'', ''Wind'', 2030)]"
  by (simp add: dispatch_normalized_dat_keys) (simp add: example_instance_def)

theorem annual_summary_by_group_witness:
  "post_solve example_instance ''out'' =
     Inr [(''out/dispatch.csv'', DetailCsv (dispatch_normalized_dat example_instance)),
          (''out/Curtailment_energy.csv'',
           SummaryCsv (annual_summary (dispatch_normalized_dat example_instance)))]
   \<and> (''out/Curtailment_energy.csv'',
       SummaryCsv (annual_summary (dispatch_normalized_dat example_instance)))
       \<in> set [(''out/dispatch.csv'', DetailCsv (dispatch_normalized_dat example_instance)),
              (''out/Curtailment_energy.csv'',
               SummaryCsv (annual_summary (dispatch_normalized_dat example_instance)))]
   \<and> group_key_of (detail_record example_instance (''G1'', 1)) = (''PV'', ''Solar'', 2030)
   \<and> group_key_of (detail_record example_instance (''G2'', 1)) = (''PV'', ''Solar'', 2030)
   \<and> group_key_of (detail_record example_instance (''G5'', 1)) = (''Turbine'', ''Wind'', 2030)
   \<and> map fst (annual_summary (dispatch_normalized_dat example_instance))
       = [(''CCGT'', ''Gas'', 2030), (''PV'', ''Solar'', 2030), (''Turbine'', ''Wind'', 2030)]
   \<and> distinct (map fst (annual_summary (dispatch_normalized_dat example_instance)))
   \<and> map_option sum_Energy_GWh_typical_yr_ideal
        (map_of (annual_summary (dispatch_normalized_dat example_instance))
           (''PV'', ''Solar'', 2030)) = Some (1 + 1)
   \<and> map_option sum_Energy_GWh_typical_yr_actual
        (map_of (annual_summary (dispatch_normalized_dat example_instance))
           (''PV'', ''Solar'', 2030)) = Some (8 / 10 + 8 / 10)
   \<and> map_option sum_VariableCost_per_yr
        (map_of (annual_summary (dispatch_normalized_dat example_instance))
           (''PV'', ''Solar'', 2030)) = Some (2000 + 2000)
   \<and> map_option sum_DispatchEmissions_tCO2_per_typical_yr
        (map_of (annual_summary (dispatch_normalized_dat example_instance))
           (''PV'', ''Solar'', 2030)) = Some (0 + 0)
   \<and> map_option sum_DispatchEmissions_tCO2_per_typical_yr
        (map_of (annual_summary (dispatch_normalized_dat example_instance))
           (''CCGT'', ''Gas'', 2030)) = Some (40 + 0)"
proof -
  have path: "path_join ''out'' ''Curtailment_energy.csv'' = ''out/Curtailment_energy.csv''"
    by (simp add: path_join_def)
  note t = annual_summary_by_group [OF example_reported, unfolded path]
  have keys: "group_key_of (detail_record example_instance (''G1'', 1)) = (''PV'', ''Solar'', 2030)"
    "group_key_of (detail_record example_instance (''G2'', 1)) = (''PV'', ''Solar'', 2030)"
    "group_key_of (detail_record example_instance (''G5'', 1)) = (''Turbine'', ''Wind'', 2030)"
    by (simp_all add: detail_record_key) (simp_all add: example_instance_def)
  have k: "(''PV'', ''Solar'', 2030) \<in> group_key_of ` set (dispatch_normalized_dat example_instance)"
    by (simp only: set_map [symmetric] example_keys) simp
  have k': "(''CCGT'', ''Gas'', 2030) \<in> group_key_of ` set (dispatch_normalized_dat example_instance)"
    by (simp only: set_map [symmetric] example_keys) simp
  have group: "filter (\<lambda>r. group_key_of r = (''PV'', ''Solar'', 2030))
        (dispatch_normalized_dat example_instance)
      = [detail_record example_instance (''G1'', 1), detail_record example_instance (''G2'', 1)]"
    by code_simp
  have group': "filter (\<lambda>r. group_key_of r = (''CCGT'', ''Gas'', 2030))
        (dispatch_normalized_dat example_instance)
      = [detail_record example_instance (''G3'', 1), detail_record example_instance (''G4'', 1)]"
    by code_simp
  have e1: "DispatchEmissions_tCO2_per_typical_yr (detail_record example_instance (''G1'', 1)) = None"
    "DispatchEmissions_tCO2_per_typical_yr (detail_record example_instance (''G2'', 1)) = None"
    "DispatchEmissions_tCO2_per_typical_yr (detail_record example_instance (''G3'', 1)) = Some 40"
    "DispatchEmissions_tCO2_per_typical_yr (detail_record example_instance (''G4'', 1)) = None"
    by (simp_all add: detail_record_emissions) (simp_all add: example_instance_def)
  from t k obtain s where
    s: "map_of (annual_summary (dispatch_normalized_dat example_instance))
          (''PV'', ''Solar'', 2030) = Some s"
    and ideal: "sum_Energy_GWh_typical_yr_ideal s
        = (\<Sum>r\<leftarrow>filter (\<lambda>r. group_key_of r = (''PV'', ''Solar'', 2030))
                    (dispatch_normalized_dat example_instance). Energy_GWh_typical_yr_ideal r)"
    and actual: "sum_Energy_GWh_typical_yr_actual s
        = (\<Sum>r\<leftarrow>filter (\<lambda>r. group_key_of r = (''PV'', ''Solar'', 2030))
                    (dispatch_normalized_dat example_instance). Energy_GWh_typical_yr_actual r)"
    and cost: "sum_VariableCost_per_yr s
        = (\<Sum>r\<leftarrow>filter (\<lambda>r. group_key_of r = (''PV'', ''Solar'', 2030))
                    (dispatch_normalized_dat example_instance). VariableCost_per_yr r)"
    and emis: "sum_DispatchEmissions_tCO2_per_typical_yr s
        = (\<Sum>r\<leftarrow>filter (\<lambda>r. group_key_of r = (''PV'', ''Solar'', 2030))
                    (dispatch_normalized_dat example_instance).
             case DispatchEmissions_tCO2_per_typical_yr r of None \<Rightarrow> 0 | Some v \<Rightarrow> v)"
    by blast
  from t k' obtain s' where
    s': "map_of (annual_summary (dispatch_normalized_dat example_instance))
          (''CCGT'', ''Gas'', 2030) = Some s'"
    and emis': "sum_DispatchEmissions_tCO2_per_typical_yr s'
        = (\<Sum>r\<leftarrow>filter (\<lambda>r. group_key_of r = (''CCGT'', ''Gas'', 2030))
                    (dispatch_normalized_dat example_instance).
             case DispatchEmissions_tCO2_per_typical_yr r of None \<Rightarrow> 0 | Some v \<Rightarrow> v)"
    by blast
  from ideal have 1: "sum_Energy_GWh_typical_yr_ideal s = 1 + 1"
    unfolding group by (simp add: detail_record_energy) (simp add: example_instance_def)
  from actual have 2: "sum_Energy_GWh_typical_yr_actual s = 8 / 10 + 8 / 10"
    unfolding group by (simp add: detail_record_energy) (simp add: example_instance_def)
  from cost have 3: "sum_VariableCost_per_yr s = 2000 + 2000"
    unfolding group by (simp add: detail_record_energy) (simp add: example_instance_def)
  from emis have 7: "sum_DispatchEmissions_tCO2_per_typical_yr s = 0 + 0"
    unfolding group by (simp add: e1)
  from emis' have 8: "sum_DispatchEmissions_tCO2_per_typical_yr s' = 40 + 0"
    unfolding group' by (simp add: e1)
  from t have 4: "(''out/Curtailment_energy.csv'',
       SummaryCsv (annual_summary (dispatch_normalized_dat example_instance)))
       \<in> set [(''out/dispatch.csv'', DetailCsv (dispatch_normalized_dat example_instance)),
              (''out/Curtailment_energy.csv'',
               SummaryCsv (annual_summary (dispatch_normalized_dat example_instance)))]"
    by blast
  from t have 5: "distinct (map fst (annual_summary (dispatch_normalized_dat example_instance)))"
    by blast
  have 6: "map fst (annual_summary (dispatch_normalized_dat example_instance))
       = [(''CCGT'', ''Gas'', 2030), (''PV'', ''Solar'', 2030), (''Turbine'', ''Wind'', 2030)]"
    by (simp add: example_summary)
  from example_reported 4 keys 6 5 s 1 2 3 7 s' 8 show ?thesis by simp
qed

subsection \<open>Missing emissions in the summary\<close>

lemma sum_skipna_group:
  "sum_skipna (map DispatchEmissions_tCO2_per_typical_yr
      (filter (\<lambda>r. group_key_of r = k) (map (detail_record inst) xs)))
   = (\<Sum>(g, t)\<leftarrow>filter (\<lambda>(g, t). (gen_tech inst g, gen_energy_source inst g, tp_period inst t) = k
                              \<and> gen_uses_fuel inst g) xs.
        \<Sum>f\<leftarrow>FUELS_FOR_GEN inst g. DispatchEmissions inst g t f * tp_weight_in_year inst t)"
proof (induction xs)
  case Nil
  then show ?case by simp
next
  case (Cons x xs)
  obtain g t where x: "x = (g, t)" by (cases x)
  show ?case
    using Cons.IH by (simp add: x detail_record_key detail_record_emissions)
qed

lemma sum_list_filter_none:
  assumes "\<forall>x \<in> set xs. \<not> P x"
  shows "sum_list (map f (filter P xs)) = (0 :: real)"
  using assms by (induction xs) simp_all

lemma annual_summary_emissions_lookup:
  assumes "k \<in> group_key_of ` set (dispatch_normalized_dat inst)"
  shows "\<exists>s. map_of (annual_summary (dispatch_normalized_dat inst)) k = Some s
    \<and> sum_DispatchEmissions_tCO2_per_typical_yr s
        = (\<Sum>(g, t)\<leftarrow>filter (\<lambda>(g, t). (gen_tech inst g, gen_energy_source inst g, tp_period inst t) = k
                                   \<and> gen_uses_fuel inst g) (GEN_TPS inst).
             \<Sum>f\<leftarrow>FUELS_FOR_GEN inst g. DispatchEmissions inst g t f * tp_weight_in_year inst t)"
  using annual_summary_lookup [OF assms]
  by (simp add: group_sum_def) (simp add: dispatch_normalized_dat_def sum_skipna_group)

text \<open>
  Claim C10. In the summary written to \<open>Curtailment_energy.csv\<close>, the null emissions of the
  projects without fuel are skipped by the sum of their group: the emissions of a group
  are the sum over its projects that use fuel, and a group in which no project uses fuel
  reports 0.
\<close>

theorem annual_summary_emissions_skip_missing:
  "(post_solve inst outdir = Inr files \<longrightarrow>
      (path_join outdir ''Curtailment_energy.csv'',
       SummaryCsv (annual_summary (dispatch_normalized_dat inst))) \<in> set files)
   \<and> (\<forall>k \<in> group_key_of ` set (dispatch_normalized_dat inst).
        \<exists>s. map_of (annual_summary (dispatch_normalized_dat inst)) k = Some s
          \<and> sum_DispatchEmissions_tCO2_per_typical_yr s
              = (\<Sum>(g, t)\<leftarrow>filter (\<lambda>(g, t). (gen_tech inst g, gen_energy_source inst g,
                                                tp_period inst t) = k
                                         \<and> gen_uses_fuel inst g) (GEN_TPS inst).
                   \<Sum>f\<leftarrow>FUELS_FOR_GEN inst g.
                      DispatchEmissions inst g t f * tp_weight_in_year inst t)
          \<and> ((\<forall>(g, t) \<in> set (GEN_TPS inst).
                 (gen_tech inst g, gen_energy_source inst g, tp_period inst t) = k
                   \<longrightarrow> \<not> gen_uses_fuel inst g)
               \<longrightarrow> sum_DispatchEmissions_tCO2_per_typical_yr s = 0))"
proof (intro conjI impI ballI)
  assume "post_solve inst outdir = Inr files"
  from post_solve_Inr(1) [OF this]
  show "(path_join outdir ''Curtailment_energy.csv'',
       SummaryCsv (annual_summary (dispatch_normalized_dat inst))) \<in> set files"
    by simp
next
  fix k
  assume "k \<in> group_key_of ` set (dispatch_normalized_dat inst)"
  from annual_summary_emissions_lookup [OF this] obtain s where
    s: "map_of (annual_summary (dispatch_normalized_dat inst)) k = Some s"
    and e: "sum_DispatchEmissions_tCO2_per_typical_yr s
        = (\<Sum>(g, t)\<leftarrow>filter (\<lambda>(g, t). (gen_tech inst g, gen_energy_source inst g,
                                          tp_period inst t) = k
                                   \<and> gen_uses_fuel inst g) (GEN_TPS inst).
             \<Sum>f\<leftarrow>FUELS_FOR_GEN inst g. DispatchEmissions inst g t f * tp_weight_in_year inst t)"
    by blast
  have "sum_DispatchEmissions_tCO2_per_typical_yr s = 0"
    if "\<forall>(g, t) \<in> set (GEN_TPS inst).
          (gen_tech inst g, gen_energy_source inst g, tp_period inst t) = k
            \<longrightarrow> \<not> gen_uses_fuel inst g"
  proof -
    from that have "\<forall>x \<in> set (GEN_TPS inst).
        \<not> (case x of (g, t) \<Rightarrow> (gen_tech inst g, gen_energy_source inst g, tp_period inst t) = k
                                 \<and> gen_uses_fuel inst g)"
      by auto
    from sum_list_filter_none [OF this] e show ?thesis by simp
  qed
  with s e show "\<exists>s. map_of (annual_summary (dispatch_normalized_dat inst)) k = Some s
          \<and> sum_DispatchEmissions_tCO2_per_typical_yr s
              = (\<Sum>(g, t)\<leftarrow>filter (\<lambda>(g, t). (gen_tech inst g, gen_energy_source inst g,
                                                tp_period inst t) = k
                                         \<and> gen_uses_fuel inst g) (GEN_TPS inst).
                   \<Sum>f\<leftarrow>FUELS_FOR_GEN inst g.
                      DispatchEmissions inst g t f * tp_weight_in_year inst t)
          \<and> ((\<forall>(g, t) \<in> set (GEN_TPS inst).
                 (gen_tech inst g, gen_energy_source inst g, tp_period inst t) = k
                   \<longrightarrow> \<not> gen_uses_fuel inst g)
               \<longrightarrow> sum_DispatchEmissions_tCO2_per_typical_yr s = 0)"
    by blast
qed

theorem annual_summary_emissions_skip_missing_witness:
  "post_solve example_instance ''out'' =
     Inr [(''out/dispatch.csv'', DetailCsv (dispatch_normalized_dat example_instance)),
          (''out/Curtailment_energy.csv'',
           SummaryCsv (annual_summary (dispatch_normalized_dat example_instance)))]
   \<and> (''out/Curtailment_energy.csv'',
       SummaryCsv (annual_summary (dispatch_normalized_dat example_instance)))
       \<in> set [(''out/dispatch.csv'', DetailCsv (dispatch_normalized_dat example_instance)),
              (''out/Curtailment_energy.csv'',
               SummaryCsv (annual_summary (dispatch_normalized_dat example_instance)))]
   \<and> map DispatchEmissions_tCO2_per_typical_yr (dispatch_normalized_dat example_instance)
       = [None, None, Some 40, None, None]
   \<and> map group_key_of (dispatch_normalized_dat example_instance)
       = [(''PV'', ''Solar'', 2030), (''PV'', ''Solar'', 2030), (''CCGT'', ''Gas'', 2030),
          (''CCGT'', ''Gas'', 2030), (''Turbine'', ''Wind'', 2030)]
   \<and> map_option sum_DispatchEmissions_tCO2_per_typical_yr
        (map_of (annual_summary (dispatch_normalized_dat example_instance))
           (''CCGT'', ''Gas'', 2030)) = Some 40
   \<and> map_option sum_DispatchEmissions_tCO2_per_typical_yr
        (map_of (annual_summary (dispatch_normalized_dat example_instance))
           (''PV'', ''Solar'', 2030)) = Some 0"
proof -
  have path: "path_join ''out'' ''Curtailment_energy.csv'' = ''out/Curtailment_energy.csv''"
    by (simp add: path_join_def)
  note t = annual_summary_emissions_skip_missing
    [of example_instance "''out''"
        "[(''out/dispatch.csv'', DetailCsv (dispatch_normalized_dat example_instance)),
          (''out/Curtailment_energy.csv'',
           SummaryCsv (annual_summary (dispatch_normalized_dat example_instance)))]",
     unfolded path]
  have gas: "(''CCGT'', ''Gas'', 2030) \<in> group_key_of ` set (dispatch_normalized_dat example_instance)"
    by (simp only: set_map [symmetric] example_keys) simp
  have pv: "(''PV'', ''Solar'', 2030) \<in> group_key_of ` set (dispatch_normalized_dat example_instance)"
    by (simp only: set_map [symmetric] example_keys) simp
  have emissions: "map DispatchEmissions_tCO2_per_typical_yr (dispatch_normalized_dat example_instance)
       = [None, None, Some 40, None, None]"
    by code_simp
  have gas_sum: "(\<Sum>(g, t)\<leftarrow>filter (\<lambda>(g, t). (gen_tech example_instance g,
                     gen_energy_source example_instance g, tp_period example_instance t)
                       = (''CCGT'', ''Gas'', 2030)
                     \<and> gen_uses_fuel example_instance g) (GEN_TPS example_instance).
             \<Sum>f\<leftarrow>FUELS_FOR_GEN example_instance g.
                DispatchEmissions example_instance g t f * tp_weight_in_year example_instance t)
      = 40"
    by (simp add: example_instance_def)
  have pv_no_fuel: "\<forall>(g, t) \<in> set (GEN_TPS example_instance).
      (gen_tech example_instance g, gen_energy_source example_instance g,
       tp_period example_instance t) = (''PV'', ''Solar'', 2030)
        \<longrightarrow> \<not> gen_uses_fuel example_instance g"
    by (simp add: example_instance_def)
  from t gas obtain s where
    s: "map_of (annual_summary (dispatch_normalized_dat example_instance))
          (''CCGT'', ''Gas'', 2030) = Some s"
    and e: "sum_DispatchEmissions_tCO2_per_typical_yr s
      = (\<Sum>(g, t)\<leftarrow>filter (\<lambda>(g, t). (gen_tech example_instance g,
                     gen_energy_source example_instance g, tp_period example_instance t)
                       = (''CCGT'', ''Gas'', 2030)
                     \<and> gen_uses_fuel example_instance g) (GEN_TPS example_instance).
             \<Sum>f\<leftarrow>FUELS_FOR_GEN example_instance g.
                DispatchEmissions example_instance g t f * tp_weight_in_year example_instance t)"
    by blast
  from s e gas_sum
  have 1: "map_option sum_DispatchEmissions_tCO2_per_typical_yr
        (map_of (annual_summary (dispatch_normalized_dat example_instance))
           (''CCGT'', ''Gas'', 2030)) = Some 40"
    by simp
  from t pv pv_no_fuel obtain s' where
    s': "map_of (annual_summary (dispatch_normalized_dat example_instance))
          (''PV'', ''Solar'', 2030) = Some s'"
    and e': "sum_DispatchEmissions_tCO2_per_typical_yr s' = 0"
    by blast
  from s' e'
  have 2: "map_option sum_DispatchEmissions_tCO2_per_typical_yr
        (map_of (annual_summary (dispatch_normalized_dat example_instance))
           (''PV'', ''Solar'', 2030)) = Some 0"
    by simp
  from t example_reported
  have 3: "(''out/Curtailment_energy.csv'',
       SummaryCsv (annual_summary (dispatch_normalized_dat example_instance)))
       \<in> set [(''out/dispatch.csv'', DetailCsv (dispatch_normalized_dat example_instance)),
              (''out/Curtailment_energy.csv'',
               SummaryCsv (annual_summary (dispatch_normalized_dat example_instance)))]"
    by blast
  from example_reported 3 emissions example_keys 1 2 show ?thesis by blast
qed

end
